theory Spec2Isabelle
  imports Complex_Main "HOL-Library.Sublist" "HOL-Library.Multiset"
begin

section \<open>Data model\<close>

text \<open>
  The script \<^verbatim>\<open>eda_conover.py\<close> works on pandas data frames. A frame is modelled by
  its column headers (label and dtype, in order) and its rows (one list of cells per row,
  in column order). A cell is a missing value (\<^verbatim>\<open>NaN\<close>/\<^verbatim>\<open>None\<close>), a finite number or a
  text that does not read as a number. The number of a cell is the exact value the frame
  holds: an integer of an \<^verbatim>\<open>int64\<close> column, a double of a \<^verbatim>\<open>float64\<close> column. Infinite
  cells and the row labels (the index) of an input frame are not modelled. The pandas
  operations the script calls are written down as their documentation describes them, for
  the dtypes a CSV of numbers and text gives: \<^verbatim>\<open>int64\<close>, \<^verbatim>\<open>float64\<close>, and for text
  \<^verbatim>\<open>object\<close> (pandas 2) or \<^verbatim>\<open>str\<close> (pandas 3).
\<close>

datatype cell = Null | Num real | Str string

datatype dtype = Int64 | Float64 | Object | StringDtype

record table =
  columns :: "(string \<times> dtype) list"
  rows :: "cell list list"

text \<open>
  What pandas computes is a double: a finite number, an infinity or \<^verbatim>\<open>NaN\<close>. The two
  zeros are not told apart (the script never divides a non-zero number by zero, and prints
  no sign).
\<close>

datatype float64 = Finite real | PInf | NInf | NaN

text \<open>A labelled table of computed statistics, row by row.\<close>

record ('r, 'c) frame =
  f_index :: "'r list"
  f_columns :: "'c list"
  f_values :: "float64 list list"

text \<open>The data dictionary, built from four arrays of equal length (one entry per row).\<close>

record data_dictionary =
  dd_column :: "string list"
  dd_dtype :: "string list"
  dd_missing_count :: "nat list"
  dd_missing_pct :: "float64 list"

text \<open>The exceptions of the run: a missing label, a text where a number is needed, a
  value that cannot be converted, a missing input file, and whatever else the file reader
  or the plotting library raise.\<close>

datatype error =
    KeyError "string list"
  | TypeError
  | ValueError
  | FileNotFoundError
  | OtherError string

definition NUMERIC_COLS :: "string list" where
  "NUMERIC_COLS = [''price'', ''area'', ''bedrooms'', ''bathrooms'', ''stories'']"

definition GROUP_COL :: string where
  "GROUP_COL = ''furnishingstatus''"

definition labels :: "table \<Rightarrow> string list" where
  "labels df = map fst (columns df)"

definition shape :: "table \<Rightarrow> nat \<times> nat" where
  "shape df = (length (rows df), length (columns df))"

definition column :: "table \<Rightarrow> nat \<Rightarrow> cell list" where
  "column df j = map (\<lambda>r. r ! j) (rows df)"

definition isna :: "cell \<Rightarrow> bool" where
  "isna c = (c = Null)"

definition notna :: "cell \<Rightarrow> bool" where
  "notna c = (c \<noteq> Null)"

fun str_dtype :: "dtype \<Rightarrow> string" where
  "str_dtype Int64 = ''int64''"
| "str_dtype Float64 = ''float64''"
| "str_dtype Object = ''object''"
| "str_dtype StringDtype = ''str''"

fun is_numeric_dtype :: "dtype \<Rightarrow> bool" where
  "is_numeric_dtype Int64 = True"
| "is_numeric_dtype Float64 = True"
| "is_numeric_dtype _ = False"

fun is_text :: "cell \<Rightarrow> bool" where
  "is_text (Str _) = True"
| "is_text _ = False"

section \<open>Arithmetic of doubles\<close>

text \<open>
  \<^verbatim>\<open>numpy.rint\<close> rounds to the nearest integer, a half to the even neighbour. A real
  number is rounded to the nearest double in the same way, at the unit in the last place
  of its binade (53 significant bits; below \<open>2 ^ - 1022\<close> the spacing stays \<open>2 ^ - 1074\<close>);
  a result of magnitude \<open>2 ^ 1024\<close> or more is an infinity.
\<close>

definition rint :: "real \<Rightarrow> int" where
  "rint x =
     (let f = \<lfloor>x\<rfloor> in
      if x - of_int f < 1 / 2 then f
      else if 1 / 2 < x - of_int f then f + 1
      else if even f then f else f + 1)"

definition expo :: "real \<Rightarrow> int" where
  "expo x = (if x = 0 then - 1022 else max \<lfloor>log 2 \<bar>x\<bar>\<rfloor> (- 1022))"

definition ulp :: "real \<Rightarrow> real" where
  "ulp x = 2 powr (of_int (expo x) - 52)"

definition round64 :: "real \<Rightarrow> float64" where
  "round64 x =
     (if x = 0 then Finite 0
      else
        let y = of_int (rint (x / ulp x)) * ulp x
        in if 2 ^ 1024 \<le> \<bar>y\<bar> then (if 0 < x then PInf else NInf) else Finite y)"

text \<open>The operations of IEEE 754: the exact result, rounded once.\<close>

definition inf_of :: "bool \<Rightarrow> float64" where
  "inf_of negative = (if negative then NInf else PInf)"

fun is_finite :: "float64 \<Rightarrow> bool" where
  "is_finite (Finite a) = True"
| "is_finite _ = False"

fun neg64 :: "float64 \<Rightarrow> float64" where
  "neg64 (Finite a) = Finite (- a)"
| "neg64 PInf = NInf"
| "neg64 NInf = PInf"
| "neg64 NaN = NaN"

fun add64 :: "float64 \<Rightarrow> float64 \<Rightarrow> float64" where
  "add64 (Finite a) (Finite b) = round64 (a + b)"
| "add64 NaN y = NaN"
| "add64 x NaN = NaN"
| "add64 PInf NInf = NaN"
| "add64 NInf PInf = NaN"
| "add64 PInf y = PInf"
| "add64 NInf y = NInf"
| "add64 (Finite a) y = y"

definition sub64 :: "float64 \<Rightarrow> float64 \<Rightarrow> float64" where
  "sub64 x y = add64 x (neg64 y)"

fun mul64 :: "float64 \<Rightarrow> float64 \<Rightarrow> float64" where
  "mul64 (Finite a) (Finite b) = round64 (a * b)"
| "mul64 NaN y = NaN"
| "mul64 x NaN = NaN"
| "mul64 (Finite a) PInf = (if a = 0 then NaN else inf_of (a < 0))"
| "mul64 (Finite a) NInf = (if a = 0 then NaN else inf_of (0 < a))"
| "mul64 PInf (Finite b) = (if b = 0 then NaN else inf_of (b < 0))"
| "mul64 NInf (Finite b) = (if b = 0 then NaN else inf_of (0 < b))"
| "mul64 PInf PInf = PInf"
| "mul64 PInf NInf = NInf"
| "mul64 NInf PInf = NInf"
| "mul64 NInf NInf = PInf"

fun div64 :: "float64 \<Rightarrow> float64 \<Rightarrow> float64" where
  "div64 (Finite a) (Finite b) =
     (if b = 0 then (if a = 0 then NaN else inf_of (a < 0)) else round64 (a / b))"
| "div64 NaN y = NaN"
| "div64 x NaN = NaN"
| "div64 (Finite a) y = Finite 0"
| "div64 PInf (Finite b) = inf_of (b < 0)"
| "div64 NInf (Finite b) = inf_of (0 \<le> b)"
| "div64 x y = NaN"

fun sqrt64 :: "float64 \<Rightarrow> float64" where
  "sqrt64 (Finite a) = (if a < 0 then NaN else round64 (sqrt a))"
| "sqrt64 PInf = PInf"
| "sqrt64 x = NaN"

fun rint64 :: "float64 \<Rightarrow> float64" where
  "rint64 (Finite a) = Finite (of_int (rint a))"
| "rint64 x = x"

text \<open>A quotient is kept within \<open>[-1, 1]\<close> by two comparisons, both false for \<^verbatim>\<open>NaN\<close>.\<close>

fun clip_unit :: "float64 \<Rightarrow> float64" where
  "clip_unit (Finite a) = Finite (if 1 < a then 1 else if a < - 1 then - 1 else a)"
| "clip_unit PInf = Finite 1"
| "clip_unit NInf = Finite (- 1)"
| "clip_unit NaN = NaN"

section \<open>Summary statistics\<close>

text \<open>
  The reductions of a column skip missing values. Counting, and the least and the
  greatest value, are exact. How pandas accumulates a mean, a standard deviation or a
  quantile in doubles, and in which order its sort leaves entries with equal keys, is
  internal to the library: these kernels are parameters of the model, as the file reader
  and the plotting library are. Each takes the cells it is applied to.
\<close>

record kernels =
  series_mean :: "cell list \<Rightarrow> float64"
  series_std :: "cell list \<Rightarrow> float64"
  series_quantile :: "real \<Rightarrow> cell list \<Rightarrow> float64"
  groupby_mean :: "cell list \<Rightarrow> float64"
  groupby_std :: "cell list \<Rightarrow> float64"
  argsort_ties :: "nat list \<Rightarrow> nat \<Rightarrow> nat"

definition numbers :: "cell list \<Rightarrow> real list" where
  "numbers cs = [x. Num x \<leftarrow> cs]"

definition count_notna :: "cell list \<Rightarrow> nat" where
  "count_notna cs = length (filter notna cs)"

definition minimum :: "cell list \<Rightarrow> real option" where
  "minimum cs = (case numbers cs of [] \<Rightarrow> None | y # ys \<Rightarrow> Some (fold min ys y))"

definition maximum :: "cell list \<Rightarrow> real option" where
  "maximum cs = (case numbers cs of [] \<Rightarrow> None | y # ys \<Rightarrow> Some (fold max ys y))"

text \<open>A statistic enters a table of doubles by conversion (\<open>as_float64\<close>), or keeps its
  value where the column keeps its dtype (\<open>as_value\<close>); a statistic of no numbers is
  \<^verbatim>\<open>NaN\<close>.\<close>

fun as_float64 :: "real option \<Rightarrow> float64" where
  "as_float64 None = NaN"
| "as_float64 (Some x) = round64 x"

fun as_value :: "real option \<Rightarrow> float64" where
  "as_value None = NaN"
| "as_value (Some x) = Finite x"

text \<open>\<^verbatim>\<open>round(2)\<close> of numpy: times 100, \<^verbatim>\<open>rint\<close>, divided by 100, each in doubles.\<close>

definition round2 :: "float64 \<Rightarrow> float64" where
  "round2 v = div64 (rint64 (mul64 v (Finite 100))) (Finite 100)"

section \<open>Logging\<close>

text \<open>
  The process-wide logger \<^verbatim>\<open>LOG\<close> is an explicit list of events, oldest first. A log
  record keeps the level, the format string and the arguments as the call passes them;
  rendering them to text is the logging library's business. \<^verbatim>\<open>df.info()\<close> prints to
  the standard output, which is recorded in the same list.
\<close>

datatype level = INFO | DEBUG

datatype describe_result =
    Numeric_summary "(string, string) frame"
  | Categorical_summary table

datatype arg =
    ArgNat nat
  | ArgStr string
  | ArgStrs "string list"
  | ArgTable table
  | ArgCounts "(string \<times> nat) list"
  | ArgDictionary data_dictionary
  | ArgSummary describe_result
  | ArgGrouped "(cell, string \<times> string) frame"
  | ArgCorr "(string, string) frame"

datatype event =
    Log level string "arg list"
  | Header string
  | Printed_info "(string \<times> nat \<times> dtype) list"

type_synonym 'a run = "event list \<Rightarrow> (error + 'a) \<times> event list"

definition info :: "string \<Rightarrow> arg list \<Rightarrow> event list \<Rightarrow> event list" where
  "info fmt args lg = lg @ [Log INFO fmt args]"

definition debug :: "string \<Rightarrow> arg list \<Rightarrow> event list \<Rightarrow> event list" where
  "debug fmt args lg = lg @ [Log DEBUG fmt args]"

section \<open>Column lookup\<close>

text \<open>
  \<^verbatim>\<open>Index.get_indexer_for(targets)\<close>: for every requested label all positions that carry
  it, or the marker for "not found" (\<^verbatim>\<open>-1\<close>, here \<open>None\<close>).
\<close>

definition positions :: "string list \<Rightarrow> string \<Rightarrow> nat list" where
  "positions ls t = filter (\<lambda>i. ls ! i = t) [0..<length ls]"

definition get_indexer_for :: "string list \<Rightarrow> string list \<Rightarrow> nat option list" where
  "get_indexer_for ls targets =
     concat (map (\<lambda>t. case positions ls t of [] \<Rightarrow> [None] | ps \<Rightarrow> map Some ps) targets)"

definition missing_labels :: "table \<Rightarrow> string list \<Rightarrow> string list" where
  "missing_labels df cols = filter (\<lambda>c. c \<notin> set (labels df)) cols"

text \<open>\<^verbatim>\<open>df[cols]\<close> with a list of labels: the columns at the labels' positions, or
  \<^verbatim>\<open>KeyError\<close> when a label is no column.\<close>

definition take_columns :: "nat list \<Rightarrow> table \<Rightarrow> table" where
  "take_columns idx df =
     \<lparr>columns = map (\<lambda>i. columns df ! i) idx, rows = map (\<lambda>r. map (\<lambda>i. r ! i) idx) (rows df)\<rparr>"

definition getitem :: "string list \<Rightarrow> table \<Rightarrow> error + table" where
  "getitem cols df =
     (let indices = get_indexer_for (labels df) cols in
      if None \<in> set indices then Inl (KeyError (missing_labels df cols))
      else Inr (take_columns [i. Some i \<leftarrow> indices] df))"

section \<open>Section 2: loading\<close>

text \<open>
  \<^verbatim>\<open>pd.read_csv\<close> reads the file system; its answer for a path (a parsed frame, or the
  error it raises) is a parameter of the model.
\<close>

definition load_data :: "(string \<Rightarrow> error + table) \<Rightarrow> table run" where
  "load_data read_csv lg =
     (let lg1 = info ''Loading housing dataset from CSV'' [] lg
      in case read_csv ''Housing.csv'' of
           Inl e \<Rightarrow> (Inl e, lg1)
         | Inr df \<Rightarrow>
             (Inr df, info ''Data loaded: %s rows, %s columns''
                        [ArgNat (fst (shape df)), ArgNat (snd (shape df))] lg1))"

section \<open>Section 3: inspection\<close>

definition nl_fmt :: string where
  "nl_fmt = CHR 0x0A # ''%s''"

definition head :: "table \<Rightarrow> table" where
  "head df = df\<lparr>rows := take 5 (rows df)\<rparr>"

definition non_null_counts :: "table \<Rightarrow> (string \<times> nat \<times> dtype) list" where
  "non_null_counts df =
     map (\<lambda>j. (fst (columns df ! j), length (filter notna (column df j)), snd (columns df ! j)))
       [0..<length (columns df)]"

definition inspect_basic :: "table \<Rightarrow> unit run" where
  "inspect_basic df lg =
     (let lg1 = info ''Inspecting first rows of data'' [] lg;
          lg2 = debug nl_fmt [ArgTable (head df)] lg1;
          lg3 = info ''Column names'' [] lg2;
          lg4 = debug ''%s'' [ArgStrs (labels df)] lg3;
          lg5 = info ''DataFrame info (types and non-null counts)'' [] lg4;
          lg6 = lg5 @ [Printed_info (non_null_counts df)];
          lg7 = info ''Dataset shape: %s rows, %s columns''
                  [ArgNat (fst (shape df)), ArgNat (snd (shape df))] lg6
      in (Inr (), lg7))"

section \<open>Section 4: data dictionary and quality checks\<close>

text \<open>\<^verbatim>\<open>df.isna().sum()\<close> and \<^verbatim>\<open>df.isna().mean()\<close>, one entry per column: the number of
  missing cells, and the mean of the column of truth values: their sum as a double,
  divided by the number of rows as a double (\<^verbatim>\<open>NaN\<close> for no rows).\<close>

definition isna_sum :: "table \<Rightarrow> nat list" where
  "isna_sum df = map (\<lambda>j. length (filter isna (column df j))) [0..<length (columns df)]"

definition isna_mean :: "table \<Rightarrow> float64 list" where
  "isna_mean df =
     map (\<lambda>j. div64 (round64 (real (length (filter isna (column df j)))))
                     (round64 (real (length (column df j)))))
       [0..<length (columns df)]"

definition build_data_dictionary :: "table \<Rightarrow> data_dictionary run" where
  "build_data_dictionary df lg =
     (let lg1 = info ''Building starter data dictionary'' [] lg;
          data_dictionary =
            \<lparr>dd_column = labels df,
             dd_dtype = map (\<lambda>c. str_dtype (snd c)) (columns df),
             dd_missing_count = isna_sum df,
             dd_missing_pct = map (\<lambda>m. round2 (mul64 m (Finite 100))) (isna_mean df)\<rparr>;
          lg2 = debug nl_fmt [ArgDictionary data_dictionary] lg1
      in (Inr data_dictionary, lg2))"

text \<open>\<^verbatim>\<open>sort_values(ascending=False)\<close>: the entries in descending order of their counts.
  Entries with equal counts stand in the order numpy's sort leaves them in, given here by
  a rank for every position (and by position, for equal ranks).\<close>

definition sort_values_desc ::
  "(nat list \<Rightarrow> nat \<Rightarrow> nat) \<Rightarrow> (string \<times> nat) list \<Rightarrow> (string \<times> nat) list" where
  "sort_values_desc ties s =
     (let arranged = map (\<lambda>i. s ! i) (sort_key (ties (map snd s)) [0..<length s])
      in rev (sort_key snd (rev arranged)))"

text \<open>\<^verbatim>\<open>df.duplicated()\<close> with \<^verbatim>\<open>keep="first"\<close>: a row is flagged when an earlier row has the
  same cells in every column (missing cells count as equal); a frame without rows or
  without columns gives no flags.\<close>

fun dup_flags :: "cell list list \<Rightarrow> cell list list \<Rightarrow> bool list" where
  "dup_flags seen [] = []"
| "dup_flags seen (r # rs) = (r \<in> set seen) # dup_flags (seen @ [r]) rs"

definition duplicated :: "table \<Rightarrow> bool list" where
  "duplicated df = (if rows df = [] \<or> columns df = [] then [] else dup_flags [] (rows df))"

text \<open>\<^verbatim>\<open>describe()\<close>: the columns of numeric dtype are summarised, in a table of doubles; a
  frame without any numeric column gets the summary for text columns instead (count,
  unique, top, freq), which is not computed here: the result then only names the data it
  would be computed from.\<close>

definition stat_names :: "string list" where
  "stat_names = [''count'', ''mean'', ''std'', ''min'', ''25%'', ''50%'', ''75%'', ''max'']"

definition describe_column :: "kernels \<Rightarrow> cell list \<Rightarrow> float64 list" where
  "describe_column K cs =
     [round64 (real (count_notna cs)), series_mean K cs, series_std K cs,
      as_float64 (minimum cs),
      series_quantile K (1 / 4) cs, series_quantile K (1 / 2) cs, series_quantile K (3 / 4) cs,
      as_float64 (maximum cs)]"

definition describe :: "kernels \<Rightarrow> table \<Rightarrow> describe_result" where
  "describe K df =
     (let numeric = filter (\<lambda>j. is_numeric_dtype (snd (columns df ! j))) [0..<length (columns df)]
      in if numeric = [] then Categorical_summary df
         else Numeric_summary
           \<lparr>f_index = stat_names,
            f_columns = map (\<lambda>j. fst (columns df ! j)) numeric,
            f_values = map (\<lambda>k. map (\<lambda>j. describe_column K (column df j) ! k) numeric)
                         [0..<length stat_names]\<rparr>)"

definition check_quality :: "kernels \<Rightarrow> table \<Rightarrow> unit run" where
  "check_quality K df lg =
     (let lg1 = info ''Checking missing values per column'' [] lg;
          lg2 = debug nl_fmt
                  [ArgCounts (sort_values_desc (argsort_ties K) (zip (labels df) (isna_sum df)))]
                  lg1;
          dup_count = length (filter id (duplicated df));
          lg3 = info ''Duplicate rows detected: %s'' [ArgNat dup_count] lg2;
          lg4 = info ''Basic sanity check for numeric columns'' [] lg3
      in case getitem NUMERIC_COLS df of
           Inl e \<Rightarrow> (Inl e, lg4)
         | Inr sel \<Rightarrow> (Inr (), debug nl_fmt [ArgSummary (describe K sel)] lg4))"

section \<open>Section 5: the cleaned view\<close>

text \<open>
  \<^verbatim>\<open>DataFrame.dropna(subset=...)\<close> with the defaults \<^verbatim>\<open>axis=0, how="any"\<close>: a label of
  the subset that is no column raises \<^verbatim>\<open>KeyError\<close>; otherwise the rows whose cells at the
  subset's positions are all non-null are kept, in order, under the same headers.
\<close>

definition dropna :: "string list \<Rightarrow> table \<Rightarrow> error + table" where
  "dropna subs df =
     (let indices = get_indexer_for (labels df) subs in
      if None \<in> set indices then Inl (KeyError (missing_labels df subs))
      else
        let mask = map (\<lambda>r. list_all (\<lambda>i. notna (r ! i)) [i. Some i \<leftarrow> indices]) (rows df)
        in Inr (df\<lparr>rows := map snd (filter fst (zip mask (rows df)))\<rparr>))"

text \<open>\<^verbatim>\<open>DataFrame.copy()\<close>: a frame with the same headers and cells.\<close>

definition copy :: "table \<Rightarrow> table" where
  "copy df = \<lparr>columns = columns df, rows = rows df\<rparr>"

definition make_clean_view :: "table \<Rightarrow> table run" where
  "make_clean_view df lg =
     (let lg1 = info ''Creating cleaned view for EDA (dropping rows with key missing values)'' [] lg
      in case dropna (NUMERIC_COLS @ [GROUP_COL]) df of
           Inl e \<Rightarrow> (Inl e, lg1)
         | Inr d \<Rightarrow>
             let df_clean = copy d;
                 lg2 = info ''Cleaned view shape: %s rows, %s columns''
                         [ArgNat (fst (shape df_clean)), ArgNat (snd (shape df_clean))] lg1
             in (Inr df_clean, lg2))"

text \<open>
  The same function on object references, for the question of what it shares with its
  argument. The store holds one frame per reference; a pandas call that returns a new
  frame allocates the next free reference. \<^verbatim>\<open>dropna\<close> (not in place) allocates its
  result, and \<^verbatim>\<open>copy()\<close> allocates a second frame with the cells of the first.
\<close>

type_synonym ref = nat

type_synonym store = "table list"

definition alloc :: "table \<Rightarrow> store \<Rightarrow> ref \<times> store" where
  "alloc t h = (length h, h @ [t])"

definition make_clean_view_obj ::
  "ref \<Rightarrow> store \<Rightarrow> event list \<Rightarrow> (error + ref) \<times> store \<times> event list" where
  "make_clean_view_obj df h lg =
     (let lg1 = info ''Creating cleaned view for EDA (dropping rows with key missing values)'' [] lg
      in case dropna (NUMERIC_COLS @ [GROUP_COL]) (h ! df) of
           Inl e \<Rightarrow> (Inl e, h, lg1)
         | Inr d \<Rightarrow>
             let (dropped, h1) = alloc d h;
                 (df_clean, h2) = alloc (copy (h1 ! dropped)) h1;
                 lg2 = info ''Cleaned view shape: %s rows, %s columns''
                         [ArgNat (fst (shape (h2 ! df_clean))), ArgNat (snd (shape (h2 ! df_clean)))] lg1
             in (Inr df_clean, h2, lg2))"

text \<open>An in-place operation on the frame behind a reference replaces what the store
  holds there.\<close>

definition update_inplace :: "ref \<Rightarrow> (table \<Rightarrow> table) \<Rightarrow> store \<Rightarrow> store" where
  "update_inplace r f h = h[r := f (h ! r)]"

section \<open>Section 6: descriptive statistics\<close>

text \<open>\<^verbatim>\<open>.T\<close> swaps the two axes of a summary.\<close>

definition transposeT :: "('r, 'c) frame \<Rightarrow> ('c, 'r) frame" where
  "transposeT f =
     \<lparr>f_index = f_columns f, f_columns = f_index f,
      f_values = map (\<lambda>j. map (\<lambda>row. row ! j) (f_values f)) [0..<length (f_columns f)]\<rparr>"

fun transposed :: "describe_result \<Rightarrow> describe_result" where
  "transposed (Numeric_summary f) = Numeric_summary (transposeT f)"
| "transposed (Categorical_summary t) = Categorical_summary t"

text \<open>
  Group keys are sorted: numbers by value and before texts, texts by their characters'
  codes.
\<close>

fun str_le :: "string \<Rightarrow> string \<Rightarrow> bool" where
  "str_le [] ys = True"
| "str_le (x # xs) [] = False"
| "str_le (x # xs) (y # ys) = ((of_char x :: nat) < of_char y \<or> (x = y \<and> str_le xs ys))"

fun cell_le :: "cell \<Rightarrow> cell \<Rightarrow> bool" where
  "cell_le (Num a) (Num b) = (a \<le> b)"
| "cell_le (Num a) c = True"
| "cell_le (Str a) (Str b) = str_le a b"
| "cell_le (Str a) (Num b) = False"
| "cell_le (Str a) Null = True"
| "cell_le Null Null = True"
| "cell_le Null c = False"

fun insort_cell :: "cell \<Rightarrow> cell list \<Rightarrow> cell list" where
  "insort_cell k [] = [k]"
| "insort_cell k (c # cs) = (if cell_le k c then k # c # cs else c # insort_cell k cs)"

definition sort_cells :: "cell list \<Rightarrow> cell list" where
  "sort_cells cs = foldr insort_cell cs []"

definition agg_names :: "string list" where
  "agg_names = [''count'', ''mean'', ''std'', ''min'', ''max'']"

text \<open>The aggregates of one column within one group: the count is an integer, the
  least and the greatest value keep the column's dtype.\<close>

definition agg_column :: "kernels \<Rightarrow> cell list \<Rightarrow> float64 list" where
  "agg_column K cs =
     [Finite (real (count_notna cs)), groupby_mean K cs, groupby_std K cs,
      as_value (minimum cs), as_value (maximum cs)]"

text \<open>
  \<^verbatim>\<open>df.groupby(by)[cols].agg([...])\<close>: the groups are the distinct non-null values of the
  column \<open>by\<close>; each selected column is aggregated within each group. A missing label
  raises \<^verbatim>\<open>KeyError\<close>, a label \<open>by\<close> that names several columns \<^verbatim>\<open>ValueError\<close>, and a column
  of dtype \<^verbatim>\<open>str\<close> or a text among the cells to average \<^verbatim>\<open>TypeError\<close>.
\<close>

definition group_keys :: "table \<Rightarrow> nat \<Rightarrow> cell list" where
  "group_keys df g = sort_cells (remdups (filter notna (column df g)))"

definition group_rows :: "table \<Rightarrow> nat \<Rightarrow> cell \<Rightarrow> cell list list" where
  "group_rows df g k = filter (\<lambda>r. r ! g = k) (rows df)"

definition groupby_agg ::
  "kernels \<Rightarrow> string \<Rightarrow> string list \<Rightarrow> table \<Rightarrow> error + (cell, string \<times> string) frame" where
  "groupby_agg K by cols df =
     (case positions (labels df) by of
        [] \<Rightarrow> Inl (KeyError [by])
      | [g] \<Rightarrow>
          (let indices = get_indexer_for (labels df) cols in
           if None \<in> set indices then Inl (KeyError (missing_labels df cols))
           else
             let idx = [i. Some i \<leftarrow> indices];
                 keys = group_keys df g
             in if list_ex (\<lambda>i. snd (columns df ! i) = StringDtype) idx \<or>
                   list_ex (\<lambda>k. list_ex (\<lambda>r. list_ex (\<lambda>i. is_text (r ! i)) idx) (group_rows df g k))
                     keys
                then Inl TypeError
                else Inr
                  \<lparr>f_index = keys,
                   f_columns = concat (map (\<lambda>i. map (\<lambda>s. (labels df ! i, s)) agg_names) idx),
                   f_values =
                     map (\<lambda>k. concat (map (\<lambda>i. agg_column K (map (\<lambda>r. r ! i) (group_rows df g k)))
                                         idx))
                       keys\<rparr>)
      | _ \<Rightarrow> Inl ValueError)"

definition descriptive_stats ::
  "kernels \<Rightarrow> table \<Rightarrow> (describe_result \<times> (cell, string \<times> string) frame) run" where
  "descriptive_stats K df_clean lg =
     (let lg1 = info ''Computing overall descriptive statistics'' [] lg
      in case getitem NUMERIC_COLS df_clean of
           Inl e \<Rightarrow> (Inl e, lg1)
         | Inr sel \<Rightarrow>
             let stats_overall = transposed (describe K sel);
                 lg2 = debug nl_fmt [ArgSummary stats_overall] lg1;
                 lg3 = info ''Computing descriptive statistics by %s'' [ArgStr GROUP_COL] lg2
             in case groupby_agg K GROUP_COL NUMERIC_COLS df_clean of
                  Inl e \<Rightarrow> (Inl e, lg3)
                | Inr stats_by_group \<Rightarrow>
                    (Inr (stats_overall, stats_by_group),
                     debug nl_fmt [ArgGrouped stats_by_group] lg3))"

section \<open>Section 7: correlations\<close>

text \<open>
  \<^verbatim>\<open>DataFrame.corr()\<close> with its defaults. The frame is converted to a matrix of doubles
  (\<^verbatim>\<open>to_numpy(dtype=float)\<close>): a number becomes the nearest double, a missing cell \<^verbatim>\<open>NaN\<close>,
  and a text cannot be converted (\<^verbatim>\<open>ValueError\<close>). For every pair of columns the
  coefficient of Pearson is accumulated in doubles by one pass (Welford's method) over
  the rows in which both entries are finite. The result is \<^verbatim>\<open>NaN\<close> when there is no such
  row or when the root of the product of the two sums of squared deviations is zero;
  otherwise the quotient, kept within \<open>[-1, 1]\<close> (pandas 3). It is computed once for the two
  entries \<open>(xi, yi)\<close> and \<open>(yi, xi)\<close> with \<open>yi \<le> xi\<close>.
\<close>

fun to_float :: "cell \<Rightarrow> float64" where
  "to_float (Num x) = round64 x"
| "to_float c = NaN"

record welford =
  nobs :: nat
  meanx :: float64
  meany :: float64
  ssqdm_x :: float64
  ssqdm_y :: float64
  covxy :: float64

definition welford_start :: welford where
  "welford_start =
     \<lparr>nobs = 0, meanx = Finite 0, meany = Finite 0, ssqdm_x = Finite 0, ssqdm_y = Finite 0,
      covxy = Finite 0\<rparr>"

definition welford_step :: "float64 \<times> float64 \<Rightarrow> welford \<Rightarrow> welford" where
  "welford_step v w =
     (let vx = fst v; vy = snd v in
      if is_finite vx \<and> is_finite vy then
        let n = nobs w + 1;
            dx = sub64 vx (meanx w);
            dy = sub64 vy (meany w);
            mx = add64 (meanx w) (mul64 (div64 (Finite 1) (round64 (real n))) dx);
            my = add64 (meany w) (mul64 (div64 (Finite 1) (round64 (real n))) dy)
        in \<lparr>nobs = n, meanx = mx, meany = my,
            ssqdm_x = add64 (ssqdm_x w) (mul64 (sub64 vx mx) dx),
            ssqdm_y = add64 (ssqdm_y w) (mul64 (sub64 vy my) dy),
            covxy = add64 (covxy w) (mul64 (sub64 vx mx) dy)\<rparr>
      else w)"

definition nancorr :: "float64 list \<Rightarrow> float64 list \<Rightarrow> float64" where
  "nancorr xs ys =
     (let w = fold welford_step (zip xs ys) welford_start in
      if nobs w < 1 then NaN
      else
        let divisor = sqrt64 (mul64 (ssqdm_x w) (ssqdm_y w))
        in if divisor \<noteq> Finite 0 then clip_unit (div64 (covxy w) divisor) else NaN)"

definition corr :: "table \<Rightarrow> error + (string, string) frame" where
  "corr df =
     (if list_ex (\<lambda>r. list_ex is_text r) (rows df) then Inl ValueError
      else
        let K = [0..<length (columns df)];
            mat = (\<lambda>j. map to_float (column df j))
        in Inr \<lparr>f_index = labels df, f_columns = labels df,
                f_values = map (\<lambda>i. map (\<lambda>j. nancorr (mat (max i j)) (mat (min i j))) K) K\<rparr>)"

definition correlation_matrix :: "table \<Rightarrow> (string, string) frame run" where
  "correlation_matrix df_clean lg =
     (let lg1 = info ''Computing correlation matrix for numeric columns'' [] lg
      in case getitem NUMERIC_COLS df_clean of
           Inl e \<Rightarrow> (Inl e, lg1)
         | Inr sel \<Rightarrow>
             (case corr sel of
                Inl e \<Rightarrow> (Inl e, lg1)
              | Inr c \<Rightarrow> (Inr c, debug nl_fmt [ArgCorr c] lg1)))"

section \<open>Section 8: plots\<close>

text \<open>
  The charts are drawn by seaborn and matplotlib; what these calls do with the cleaned
  view (return after the windows are closed, or raise) is a parameter of the model.
\<close>

definition make_plots :: "(table \<Rightarrow> error + unit) \<Rightarrow> table \<Rightarrow> unit run" where
  "make_plots render df_clean lg =
     (let lg1 = info ''Creating scatter plot: area vs price'' [] lg
      in case render df_clean of
           Inl e \<Rightarrow> (Inl e, lg1)
         | Inr u \<Rightarrow> (Inr (), lg1))"

section \<open>The workflow\<close>

text \<open>
  \<^verbatim>\<open>main\<close> has no \<^verbatim>\<open>try\<close>: a call that raises ends it. \<open>bind\<close> is this sequencing: the
  second computation runs only on a result of the first.
\<close>

definition bind :: "'a run \<Rightarrow> ('a \<Rightarrow> 'b run) \<Rightarrow> 'b run" where
  "bind m f lg = (case m lg of (Inl e, lg') \<Rightarrow> (Inl e, lg') | (Inr x, lg') \<Rightarrow> f x lg')"

definition log_info :: "string \<Rightarrow> unit run" where
  "log_info msg lg = (Inr (), info msg [] lg)"

definition log_header :: "string \<Rightarrow> unit run" where
  "log_header title lg = (Inr (), lg @ [Header title])"

definition main ::
  "(string \<Rightarrow> error + table) \<Rightarrow> (table \<Rightarrow> error + unit) \<Rightarrow> kernels \<Rightarrow> unit run" where
  "main read_csv render K =
     bind (log_header ''Exploratory Data Analysis (EDA) - Housing Prices'') (\<lambda>_.
     bind (log_info ''Section 1: Setup at the top of the file'') (\<lambda>_.
     bind (log_info ''Section 2: Load the data'') (\<lambda>_.
     bind (load_data read_csv) (\<lambda>df.
     bind (log_info ''Section 3: Inspect data shape and basic structure'') (\<lambda>_.
     bind (inspect_basic df) (\<lambda>_.
     bind (log_info ''Section 4: Check data quality'') (\<lambda>_.
     bind (build_data_dictionary df) (\<lambda>_.
     bind (check_quality K df) (\<lambda>_.
     bind (log_info ''Section 5: Create a cleaned view for EDA'') (\<lambda>_.
     bind (make_clean_view df) (\<lambda>df_clean.
     bind (log_info ''Section 6: Compute descriptive statistics for numeric columns'') (\<lambda>_.
     bind (descriptive_stats K df_clean) (\<lambda>_.
     bind (log_info ''Section 7: Show correlation matrix for numeric columns'') (\<lambda>_.
     bind (correlation_matrix df_clean) (\<lambda>_.
     bind (log_info ''Section 8: Make plots'') (\<lambda>_.
     bind (make_plots render df_clean) (\<lambda>_.
     bind (log_info ''EDA workflow complete'') (\<lambda>_.
     bind (log_info ''IMPORTANT: This script creates chart windows.'') (\<lambda>_.
     log_info ''Close any chart windows and terminate this process with CTRL+c as needed.'')))))))))))))))))))"

section \<open>Vocabulary of the properties\<close>

text \<open>
  The six labels a cleaned view needs are columns of the frame; a row is complete when
  every cell that stands under one of the six labels is non-null.
\<close>

definition required_present :: "table \<Rightarrow> bool" where
  "required_present df = list_all (\<lambda>c. c \<in> set (labels df)) (NUMERIC_COLS @ [GROUP_COL])"

definition complete_row :: "table \<Rightarrow> cell list \<Rightarrow> bool" where
  "complete_row df r =
     list_all (\<lambda>i. labels df ! i \<in> set (NUMERIC_COLS @ [GROUP_COL]) \<longrightarrow> r ! i \<noteq> Null)
       [0..<length (labels df)]"

text \<open>What a computation returns or raises, and the records it appends, when it starts
  from an empty log.\<close>

definition result :: "'a run \<Rightarrow> error + 'a" where
  "result m = fst (m [])"

definition appended :: "'a run \<Rightarrow> event list" where
  "appended m = snd (m [])"

text \<open>The log of \<^verbatim>\<open>main\<close> up to the end of each stage.\<close>

definition log_opening :: "event list" where
  "log_opening =
     [Header ''Exploratory Data Analysis (EDA) - Housing Prices'',
      Log INFO ''Section 1: Setup at the top of the file'' [],
      Log INFO ''Section 2: Load the data'' []]"

definition log_to_load :: "(string \<Rightarrow> error + table) \<Rightarrow> event list" where
  "log_to_load read_csv = log_opening @ appended (load_data read_csv)"

definition log_to_quality ::
  "(string \<Rightarrow> error + table) \<Rightarrow> kernels \<Rightarrow> table \<Rightarrow> event list" where
  "log_to_quality read_csv K df =
     log_to_load read_csv
     @ [Log INFO ''Section 3: Inspect data shape and basic structure'' []]
     @ appended (inspect_basic df)
     @ [Log INFO ''Section 4: Check data quality'' []]
     @ appended (build_data_dictionary df)
     @ appended (check_quality K df)"

definition log_to_clean ::
  "(string \<Rightarrow> error + table) \<Rightarrow> kernels \<Rightarrow> table \<Rightarrow> event list" where
  "log_to_clean read_csv K df =
     log_to_quality read_csv K df
     @ [Log INFO ''Section 5: Create a cleaned view for EDA'' []]
     @ appended (make_clean_view df)"

definition log_to_stats ::
  "(string \<Rightarrow> error + table) \<Rightarrow> kernels \<Rightarrow> table \<Rightarrow> table \<Rightarrow> event list" where
  "log_to_stats read_csv K df df_clean =
     log_to_clean read_csv K df
     @ [Log INFO ''Section 6: Compute descriptive statistics for numeric columns'' []]
     @ appended (descriptive_stats K df_clean)"

definition log_to_corr ::
  "(string \<Rightarrow> error + table) \<Rightarrow> kernels \<Rightarrow> table \<Rightarrow> table \<Rightarrow> event list" where
  "log_to_corr read_csv K df df_clean =
     log_to_stats read_csv K df df_clean
     @ [Log INFO ''Section 7: Show correlation matrix for numeric columns'' []]
     @ appended (correlation_matrix df_clean)"

definition log_to_plots ::
  "(string \<Rightarrow> error + table) \<Rightarrow> (table \<Rightarrow> error + unit) \<Rightarrow> kernels \<Rightarrow> table \<Rightarrow> table \<Rightarrow>
     event list" where
  "log_to_plots read_csv render K df df_clean =
     log_to_corr read_csv K df df_clean
     @ [Log INFO ''Section 8: Make plots'' []]
     @ appended (make_plots render df_clean)"

definition log_closing :: "event list" where
  "log_closing =
     [Log INFO ''EDA workflow complete'' [],
      Log INFO ''IMPORTANT: This script creates chart windows.'' [],
      Log INFO ''Close any chart windows and terminate this process with CTRL+c as needed.'' []]"

text \<open>The number of missing cells in the column at a position.\<close>

definition missing_in :: "table \<Rightarrow> nat \<Rightarrow> nat" where
  "missing_in df j = length (filter (\<lambda>r. r ! j = Null) (rows df))"

text \<open>
  The pairs of an earlier and a later row with the same cells in every column. A frame
  has exactly one exact duplicate row when there is exactly one such pair.
\<close>

definition equal_pairs :: "table \<Rightarrow> (nat \<times> nat) list" where
  "equal_pairs df =
     concat (map (\<lambda>j. map (\<lambda>i. (i, j)) (filter (\<lambda>i. rows df ! i = rows df ! j) [0..<j]))
       [0..<length (rows df)])"

definition one_duplicate_row :: "table \<Rightarrow> bool" where
  "one_duplicate_row df = (length (equal_pairs df) = 1)"

text \<open>
  The positions of the columns under the five numeric labels, in the order of the labels;
  those among them of a numeric dtype; the numeric labels that are no column; and the
  positions of the columns under the grouping label.
\<close>

definition numeric_positions :: "table \<Rightarrow> nat list" where
  "numeric_positions df =
     concat (map (\<lambda>c. filter (\<lambda>i. fst (columns df ! i) = c) [0..<length (columns df)])
       NUMERIC_COLS)"

definition numeric_dtype_positions :: "table \<Rightarrow> nat list" where
  "numeric_dtype_positions df =
     filter (\<lambda>i. snd (columns df ! i) = Int64 \<or> snd (columns df ! i) = Float64)
       (numeric_positions df)"

definition missing_numeric :: "table \<Rightarrow> string list" where
  "missing_numeric df = filter (\<lambda>c. c \<notin> set (map fst (columns df))) NUMERIC_COLS"

definition group_positions :: "table \<Rightarrow> nat list" where
  "group_positions df = filter (\<lambda>i. fst (columns df ! i) = GROUP_COL) [0..<length (columns df)]"

text \<open>The cells of a frame at a position, all of them or those of the rows that carry
  a given value at another position.\<close>

definition cells_at :: "table \<Rightarrow> nat \<Rightarrow> cell list" where
  "cells_at df i = map (\<lambda>r. r ! i) (rows df)"

definition cells_of_group :: "table \<Rightarrow> nat \<Rightarrow> cell \<Rightarrow> nat \<Rightarrow> cell list" where
  "cells_of_group df g k i = map (\<lambda>r. r ! i) (filter (\<lambda>r. r ! g = k) (rows df))"

text \<open>
  The numbers among some cells, how many of the cells are not missing, and the least
  and the greatest of the numbers (\<^verbatim>\<open>NaN\<close> when there is none), exactly or as a double.
\<close>

definition values_of :: "cell list \<Rightarrow> real list" where
  "values_of cs = concat (map (\<lambda>c. case c of Num x \<Rightarrow> [x] | _ \<Rightarrow> []) cs)"

definition present :: "cell list \<Rightarrow> nat" where
  "present cs = length (filter (\<lambda>c. c \<noteq> Null) cs)"

definition least :: "cell list \<Rightarrow> float64" where
  "least cs = (if values_of cs = [] then NaN else Finite (Min (set (values_of cs))))"

definition greatest :: "cell list \<Rightarrow> float64" where
  "greatest cs = (if values_of cs = [] then NaN else Finite (Max (set (values_of cs))))"

definition least64 :: "cell list \<Rightarrow> float64" where
  "least64 cs = (if values_of cs = [] then NaN else round64 (Min (set (values_of cs))))"

definition greatest64 :: "cell list \<Rightarrow> float64" where
  "greatest64 cs = (if values_of cs = [] then NaN else round64 (Max (set (values_of cs))))"

text \<open>The eight entries of a summary for the cells of one column, and the five
  aggregates for the cells of one column within one group.\<close>

definition summary_of :: "kernels \<Rightarrow> cell list \<Rightarrow> float64 list" where
  "summary_of K cs =
     [round64 (real (present cs)), series_mean K cs, series_std K cs, least64 cs,
      series_quantile K (1 / 4) cs, series_quantile K (1 / 2) cs, series_quantile K (3 / 4) cs,
      greatest64 cs]"

definition aggregates_of :: "kernels \<Rightarrow> cell list \<Rightarrow> float64 list" where
  "aggregates_of K cs =
     [Finite (real (present cs)), groupby_mean K cs, groupby_std K cs, least cs, greatest cs]"

text \<open>
  A cleaned view: the six labels are columns and every row is complete. \<open>clean_of\<close> is
  the cleaned view of a frame: its complete rows under its headers.
\<close>

definition clean_view :: "table \<Rightarrow> bool" where
  "clean_view df = (required_present df \<and> list_all (complete_row df) (rows df))"

definition clean_of :: "table \<Rightarrow> table" where
  "clean_of df = \<lparr>columns = columns df, rows = filter (complete_row df) (rows df)\<rparr>"

text \<open>A column under a numeric label has the dtype \<^verbatim>\<open>str\<close>, or holds a text.\<close>

definition text_under_numeric :: "table \<Rightarrow> bool" where
  "text_under_numeric df =
     list_ex (\<lambda>i. snd (columns df ! i) = StringDtype \<or> list_ex (\<lambda>r. is_text (r ! i)) (rows df))
       (numeric_positions df)"

text \<open>The titles of the sections \<^verbatim>\<open>main\<close> announces, and those announced in a log.\<close>

definition section_titles :: "string list" where
  "section_titles =
     [''Section 1: Setup at the top of the file'',
      ''Section 2: Load the data'',
      ''Section 3: Inspect data shape and basic structure'',
      ''Section 4: Check data quality'',
      ''Section 5: Create a cleaned view for EDA'',
      ''Section 6: Compute descriptive statistics for numeric columns'',
      ''Section 7: Show correlation matrix for numeric columns'',
      ''Section 8: Make plots'']"

fun section_title :: "event \<Rightarrow> string list" where
  "section_title (Log INFO msg []) = (if take 8 msg = ''Section '' then [msg] else [])"
| "section_title e = []"

definition sections :: "event list \<Rightarrow> string list" where
  "sections lg = concat (map section_title lg)"

text \<open>
  The statistics over the reals: the mean, the sample standard deviation (\<^verbatim>\<open>ddof=1\<close>),
  and a quantile by linear interpolation between the two nearest order statistics. The
  kernels \<open>exact_kernels\<close> return them rounded once, and leave equal counts in the order
  of their positions.
\<close>

definition mean :: "real list \<Rightarrow> real option" where
  "mean xs = (if xs = [] then None else Some (sum_list xs / real (length xs)))"

definition std :: "real list \<Rightarrow> real option" where
  "std xs =
     (if length xs \<le> 1 then None
      else
        let m = sum_list xs / real (length xs)
        in Some (sqrt (sum_list (map (\<lambda>x. (x - m)\<^sup>2) xs) / (real (length xs) - 1))))"

definition quantile :: "real \<Rightarrow> real list \<Rightarrow> real option" where
  "quantile q xs =
     (if xs = [] then None
      else
        let s = sort xs;
            h = (real (length s) - 1) * q;
            lo = nat \<lfloor>h\<rfloor>;
            hi = min (lo + 1) (length s - 1)
        in Some (s ! lo + (h - real lo) * (s ! hi - s ! lo)))"

definition exact_kernels :: kernels where
  "exact_kernels =
     \<lparr>series_mean = (\<lambda>cs. as_float64 (mean (numbers cs))),
      series_std = (\<lambda>cs. as_float64 (std (numbers cs))),
      series_quantile = (\<lambda>q cs. as_float64 (quantile q (numbers cs))),
      groupby_mean = (\<lambda>cs. as_float64 (mean (numbers cs))),
      groupby_std = (\<lambda>cs. as_float64 (std (numbers cs))),
      argsort_ties = (\<lambda>counts i. 0)\<rparr>"

text \<open>
  Small frames in the layout of the housing data. In \<open>housing_sample\<close> the second row
  lacks its area and the third only its \<^verbatim>\<open>mainroad\<close> entry. \<open>clean_sample\<close> is a cleaned
  view whose bedrooms, bathrooms and stories are the same in both rows. In
  \<open>grouped_sample\<close> the rows of two furnishing states alternate. In \<open>duplicate_sample\<close>
  the third row repeats the first, and four numeric columns are absent. In
  \<open>text_price_sample\<close> the price column holds text. \<open>missing_sample\<close> has 160 rows, 23 of
  them without a price; \<open>tie_sample\<close> has 32 rows, one without a price and three without
  an area; and \<open>empty_sample\<close> has a column and no row.
\<close>

definition housing_sample :: table where
  "housing_sample =
     \<lparr>columns = [(''price'', Int64), (''area'', Float64), (''bedrooms'', Int64),
                 (''bathrooms'', Int64), (''stories'', Int64), (''mainroad'', Object),
                 (''furnishingstatus'', Object)],
      rows = [[Num 100, Num 50, Num 3, Num 2, Num 2, Str ''yes'', Str ''furnished''],
              [Num 200, Null, Num 4, Num 1, Num 2, Str ''no'', Str ''unfurnished''],
              [Num 300, Num 70, Num 2, Num 1, Num 1, Null, Str ''furnished'']]\<rparr>"

definition clean_sample :: table where
  "clean_sample =
     \<lparr>columns = [(''price'', Int64), (''area'', Int64), (''bedrooms'', Int64),
                 (''bathrooms'', Int64), (''stories'', Int64), (''furnishingstatus'', Object)],
      rows = [[Num 100, Num 50, Num 3, Num 1, Num 2, Str ''furnished''],
              [Num 102, Num 52, Num 3, Num 1, Num 2, Str ''unfurnished'']]\<rparr>"

definition grouped_sample :: table where
  "grouped_sample =
     \<lparr>columns = [(''price'', Int64), (''area'', Int64), (''bedrooms'', Int64),
                 (''bathrooms'', Int64), (''stories'', Int64), (''furnishingstatus'', Object)],
      rows = [[Num 100, Num 50, Num 3, Num 1, Num 2, Str ''unfurnished''],
              [Num 200, Num 60, Num 4, Num 2, Num 1, Str ''furnished''],
              [Num 300, Num 70, Num 3, Num 1, Num 2, Str ''unfurnished''],
              [Num 400, Num 80, Num 2, Num 2, Num 3, Str ''furnished'']]\<rparr>"

definition duplicate_sample :: table where
  "duplicate_sample =
     \<lparr>columns = [(''price'', Int64), (''furnishingstatus'', Object)],
      rows = [[Num 100, Str ''furnished''], [Num 102, Null], [Num 100, Str ''furnished'']]\<rparr>"

definition text_price_sample :: table where
  "text_price_sample =
     \<lparr>columns = [(''price'', Object), (''area'', Int64), (''bedrooms'', Int64),
                 (''bathrooms'', Int64), (''stories'', Int64), (''furnishingstatus'', Object)],
      rows = [[Str ''n/a'', Num 50, Num 3, Num 1, Num 2, Str ''furnished'']]\<rparr>"

definition missing_sample :: table where
  "missing_sample =
     \<lparr>columns = [(''price'', Float64)],
      rows = replicate 23 [Null] @ replicate 137 [Num 1]\<rparr>"

definition tie_sample :: table where
  "tie_sample =
     \<lparr>columns = [(''price'', Float64), (''area'', Float64)],
      rows = [Null, Null] # replicate 2 [Num 1, Null] @ replicate 29 [Num 1, Num 1]\<rparr>"

definition empty_sample :: table where
  "empty_sample = \<lparr>columns = [(''price'', Float64)], rows = []\<rparr>"

section \<open>Rounding to a double\<close>

lemma rint_near: "\<bar>of_int (rint t) - t\<bar> \<le> 1 / 2"
  unfolding rint_def Let_def by (auto simp: abs_le_iff)

lemma rint_of_int: "rint (of_int z) = z"
  by (simp add: rint_def)

lemma ulp_pos: "0 < ulp x"
  by (simp add: ulp_def)

lemma expo_le:
  assumes "\<bar>x\<bar> < 2 ^ Suc E"
  shows "expo x \<le> int E"
proof (cases "x = 0")
  case True
  then show ?thesis by (simp add: expo_def)
next
  case False
  then have "log 2 \<bar>x\<bar> < log 2 (2 ^ Suc E)"
    using assms by simp
  also have "\<dots> = real (Suc E)"
    by (simp only: log_pow_cancel)
  finally have "\<lfloor>log 2 \<bar>x\<bar>\<rfloor> \<le> int E"
    by (simp add: floor_le_iff) 
  then show ?thesis
    by (simp add: expo_def)
qed

lemma ulp_le:
  assumes "\<bar>x\<bar> < 2 ^ Suc E" and "E \<le> 52"
  shows "ulp x \<le> 2 ^ E / 2 ^ 52"
proof -
  have "ulp x \<le> 2 powr (of_int (int E) - 52)"
    unfolding ulp_def using expo_le [OF assms(1)] by simp
  also have "\<dots> = 2 ^ E / 2 ^ 52"
    by (simp add: powr_diff powr_realpow)
  finally show ?thesis .
qed

lemma round64_near:
  assumes "\<bar>x\<bar> < 2 ^ Suc E" and "E \<le> 52"
  shows "\<exists>y. round64 x = Finite y \<and> \<bar>y - x\<bar> \<le> 2 ^ E / 2 ^ 53"
proof (cases "x = 0")
  case True
  then show ?thesis by (simp add: round64_def)
next
  case False
  define y where "y = of_int (rint (x / ulp x)) * ulp x"
  have "y - x = (of_int (rint (x / ulp x)) - x / ulp x) * ulp x"
    using ulp_pos [of x] by (simp add: y_def left_diff_distrib)
  then have "\<bar>y - x\<bar> = \<bar>of_int (rint (x / ulp x)) - x / ulp x\<bar> * ulp x"
    using ulp_pos [of x] by (simp add: abs_mult)
  also have "\<dots> \<le> 1 / 2 * ulp x"
    using rint_near [of "x / ulp x"] ulp_pos [of x] by (intro mult_right_mono) simp_all
  also have "\<dots> \<le> 1 / 2 * (2 ^ E / 2 ^ 52)"
    using ulp_le [OF assms] by simp
  finally have near: "\<bar>y - x\<bar> \<le> 2 ^ E / 2 ^ 53"
    by simp
  have "(2::real) ^ E \<le> 2 ^ 52"
    using assms(2) by (intro power_increasing) simp_all
  then have "(2::real) ^ E / 2 ^ 53 \<le> 1"
    by simp
  with near have "\<bar>y\<bar> < 2 ^ Suc E + 1"
    using assms(1) by linarith
  also have "(2::real) ^ Suc E + 1 \<le> 2 ^ 53 + 1"
    using assms(2) by (intro add_right_mono power_increasing) simp_all
  also have "\<dots> \<le> (2::real) ^ 1024"
    by simp
  finally have "\<not> 2 ^ 1024 \<le> \<bar>y\<bar>"
    by simp
  with False near show ?thesis
    by (simp add: round64_def Let_def y_def)
qed


lemma round64_within:
  assumes "\<bar>x\<bar> < 2 ^ Suc E" and "E \<le> 52"
  obtains y where "round64 x = Finite y" and "y - x \<le> 2 ^ E / 2 ^ 53"
    and "x - y \<le> 2 ^ E / 2 ^ 53"
proof -
  from round64_near [OF assms] obtain y where
    y: "round64 x = Finite y" and near: "\<bar>y - x\<bar> \<le> 2 ^ E / 2 ^ 53"
    by blast
  from near have "y - x \<le> 2 ^ E / 2 ^ 53"
    by (rule abs_le_D1)
  moreover from near have "- (y - x) \<le> 2 ^ E / 2 ^ 53"
    by (rule abs_le_D2)
  then have "x - y \<le> 2 ^ E / 2 ^ 53"
    by simp
  ultimately show ?thesis
    using y that by blast
qed

text \<open>Numbers with at most 53 significant bits are kept.\<close>

lemma floor_log2_less:
  assumes "0 < x" and "x < 2 powr of_int k"
  shows "\<lfloor>log 2 x\<rfloor> < k"
proof -
  from assms have "log 2 x < of_int k"
    by (simp add: log_less_iff)
  then show ?thesis
    by (simp add: floor_less_iff)
qed

lemma round64_dyadic:
  assumes "\<bar>m\<bar> < 2 ^ 53" and "j \<le> 1074"
  shows "round64 (of_int m / 2 ^ j) = Finite (of_int m / 2 ^ j)"
proof (cases "m = 0")
  case True
  then show ?thesis by (simp add: round64_def)
next
  case False
  define x :: real where "x = of_int m / 2 ^ j"
  from False have x0: "x \<noteq> 0"
    by (simp add: x_def)
  have "\<bar>x\<bar> = of_int \<bar>m\<bar> / 2 ^ j"
    by (simp add: x_def)
  also have "\<dots> < 2 ^ 53 / 2 ^ j"
    using assms(1) by (simp add: divide_strict_right_mono)
  also have "\<dots> = 2 powr of_int (53 - int j)"
    by (simp add: powr_diff powr_realpow)
  finally have "\<lfloor>log 2 \<bar>x\<bar>\<rfloor> < 53 - int j"
    using x0 by (intro floor_log2_less) simp_all
  with assms(2) have e: "expo x \<le> 52 - int j"
    using x0 by (simp add: expo_def)
  define k where "k = nat (52 - int j - expo x)"
  from e have k: "int k = 52 - int j - expo x"
    by (simp add: k_def)
  have "ulp x = 2 powr (- of_int (int j) - of_int (int k))"
    unfolding ulp_def k by simp
  also have "\<dots> = 1 / (2 ^ j * 2 ^ k)"
    by (simp add: powr_diff powr_minus powr_realpow field_simps)
  finally have u: "ulp x = 1 / (2 ^ j * 2 ^ k)" .
  have "x / ulp x = x * (2 ^ j * 2 ^ k)"
    by (simp only: u) simp
  also have "\<dots> = of_int (m * 2 ^ k)"
    by (simp add: x_def)
  finally have "x / ulp x = of_int (m * 2 ^ k)" .
  then have "rint (x / ulp x) = m * 2 ^ k"
    by (simp only: rint_of_int)
  then have "of_int (rint (x / ulp x)) * ulp x = of_int (m * 2 ^ k) * (1 / (2 ^ j * 2 ^ k))"
    by (simp only: u)
  also have "\<dots> = x"
    by (simp add: x_def)
  finally have y: "of_int (rint (x / ulp x)) * ulp x = x" .
  have "\<bar>x\<bar> < 2 ^ 53"
  proof -
    have "\<bar>x\<bar> = of_int \<bar>m\<bar> / 2 ^ j"
      by (simp add: x_def)
    also have "\<dots> \<le> of_int \<bar>m\<bar> / 1"
      by (intro divide_left_mono) simp_all
    also have "\<dots> < 2 ^ 53"
      using assms(1) by simp
    finally show ?thesis .
  qed
  then have "\<not> 2 ^ 1024 \<le> \<bar>x\<bar>"
    by simp
  with x0 y show ?thesis
    unfolding x_def [symmetric] by (simp add: round64_def Let_def)
qed

lemma round64_int: "\<bar>m\<bar> < 2 ^ 53 \<Longrightarrow> round64 (of_int m) = Finite (of_int m)"
  using round64_dyadic [of m 0] by simp

lemma round64_nat: "n < 2 ^ 53 \<Longrightarrow> round64 (real n) = Finite (real n)"
  using round64_int [of "int n"] by simp

lemma round64_numeral [simp]:
  "numeral w < (2::int) ^ 53 \<Longrightarrow> round64 (numeral w) = Finite (numeral w)"
  "round64 1 = Finite 1" "round64 0 = Finite 0"
  using round64_int [of "numeral w"] round64_int [of 1] by (simp_all add: round64_def)

lemma round64_half [simp]: "round64 (1 / 2) = Finite (1 / 2)"
  using round64_dyadic [of 1 1] by simp

text \<open>The value of \<open>round64\<close> at a number whose binary exponent is known.\<close>

lemma round64_at:
  assumes "u = 2 powr (of_int e - 52)" and "- 1022 \<le> e" and "e \<le> 1022"
    and "u * 2 ^ 52 \<le> \<bar>x\<bar>" and "\<bar>x\<bar> < u * 2 ^ 53"
  shows "round64 x = Finite (of_int (rint (x / u)) * u)"
proof -
  have u0: "0 < u"
    by (simp add: assms(1))
  have p: "u * 2 ^ 52 = 2 powr of_int e"
    by (simp add: assms(1) powr_diff)
  then have q: "u * 2 ^ 53 = 2 powr (of_int e + 1)"
    by (simp add: powr_add)
  from u0 assms(4) have x0: "x \<noteq> 0"
    by (auto simp: zero_less_mult_iff)
  then have pos: "0 < \<bar>x\<bar>"
    by simp
  have "of_int e \<le> log 2 \<bar>x\<bar>"
    using assms(4) pos unfolding p by (simp add: le_log_iff)
  moreover have "log 2 \<bar>x\<bar> < of_int e + 1"
    using assms(5) pos unfolding q by (simp add: log_less_iff)
  ultimately have "\<lfloor>log 2 \<bar>x\<bar>\<rfloor> = e"
    by (intro floor_unique) simp_all
  with x0 assms(2) have "expo x = e"
    by (simp add: expo_def)
  then have ulp: "ulp x = u"
    by (simp add: ulp_def assms(1))
  define r where "r = rint (x / u)"
  have "\<bar>x / u\<bar> < 2 ^ 53"
    using assms(5) u0 by (simp add: abs_mult divide_less_eq mult.commute)
  with rint_near [of "x / u"] have "\<bar>real_of_int r\<bar> < 2 ^ 53 + 1"
    unfolding r_def by linarith
  then have "\<bar>r\<bar> < 2 ^ 53 + 1"
    by (metis (mono_tags, opaque_lifting) of_int_abs of_int_less_iff of_int_numeral of_int_power
        of_int_add of_int_1)
  then have "\<bar>r\<bar> \<le> 2 ^ 53"
    by simp
  then have "\<bar>real_of_int r\<bar> \<le> 2 ^ 53"
    by (metis (mono_tags, opaque_lifting) of_int_abs of_int_le_iff of_int_numeral of_int_power)
  then have "\<bar>real_of_int r * u\<bar> \<le> 2 ^ 53 * u"
    using u0 by (simp add: abs_mult)
  also have "\<dots> = 2 powr (of_int e + 1)"
    using q by (simp add: mult.commute)
  also have "\<dots> \<le> 2 powr 1023"
    using assms(3) by (intro powr_mono) simp_all
  also have "\<dots> < 2 ^ 1024"
    by simp
  finally have "\<not> 2 ^ 1024 \<le> \<bar>real_of_int r * u\<bar>"
    by simp
  with x0 show ?thesis
    by (simp add: round64_def Let_def ulp r_def)
qed

section \<open>Column lookup and row selection\<close>

lemma positions_empty: "positions ls t = [] \<longleftrightarrow> t \<notin> set ls"
  by (auto simp: positions_def filter_empty_conv in_set_conv_nth)

lemma set_positions: "set (positions ls t) = {i. i < length ls \<and> ls ! i = t}"
  by (auto simp: positions_def)

lemma indexer_None: "None \<in> set (get_indexer_for ls ts) \<longleftrightarrow> \<not> set ts \<subseteq> set ls"
proof -
  have "None \<in> set (case positions ls t of [] \<Rightarrow> [None] | ps \<Rightarrow> map Some ps)
          \<longleftrightarrow> t \<notin> set ls" for t
    using positions_empty [of ls t] by (cases "positions ls t") auto
  then show ?thesis
    by (auto simp: get_indexer_for_def)
qed

lemma indexer_Some:
  "set [i. Some i \<leftarrow> get_indexer_for ls ts] = {i. i < length ls \<and> ls ! i \<in> set ts}"
proof -
  have "Some i \<in> set (get_indexer_for ls ts) \<longleftrightarrow> i < length ls \<and> ls ! i \<in> set ts" for i
  proof -
    have "Some i \<in> set (case positions ls t of [] \<Rightarrow> [None] | ps \<Rightarrow> map Some ps)
            \<longleftrightarrow> i \<in> set (positions ls t)" for t
      by (cases "positions ls t") auto
    then show ?thesis
      by (auto simp: get_indexer_for_def set_positions)
  qed
  then show ?thesis
    by (auto split: option.splits)
qed

lemma mask_filter: "map snd (filter fst (zip (map P xs) xs)) = filter P xs"
  by (induction xs) auto

lemma dropna_eq:
  "dropna subs df =
     (if set subs \<subseteq> set (labels df)
      then Inr (df\<lparr>rows := filter (\<lambda>r. \<forall>i<length (labels df).
                                 labels df ! i \<in> set subs \<longrightarrow> r ! i \<noteq> Null) (rows df)\<rparr>)
      else Inl (KeyError (missing_labels df subs)))"
proof -
  have "list_all (\<lambda>i. notna (r ! i)) [i. Some i \<leftarrow> get_indexer_for (labels df) subs]
          \<longleftrightarrow> (\<forall>i<length (labels df). labels df ! i \<in> set subs \<longrightarrow> r ! i \<noteq> Null)" for r
    unfolding list_all_iff indexer_Some by (auto simp: notna_def)
  then show ?thesis
    by (simp add: dropna_def Let_def indexer_None mask_filter)
qed

lemma complete_row_iff:
  "complete_row df r \<longleftrightarrow>
     (\<forall>i<length (labels df). labels df ! i \<in> set (NUMERIC_COLS @ [GROUP_COL]) \<longrightarrow> r ! i \<noteq> Null)"
  unfolding complete_row_def list_all_iff by auto

lemma required_present_iff:
  "required_present df \<longleftrightarrow> set (NUMERIC_COLS @ [GROUP_COL]) \<subseteq> set (labels df)"
  by (auto simp: required_present_def list_all_iff)

lemma make_clean_view_result:
  "fst (make_clean_view df lg) =
     (if required_present df
      then Inr \<lparr>columns = columns df, rows = filter (complete_row df) (rows df)\<rparr>
      else Inl (KeyError (missing_labels df (NUMERIC_COLS @ [GROUP_COL]))))"
proof -
  have "filter (\<lambda>r. \<forall>i<length (labels df).
            labels df ! i \<in> set (NUMERIC_COLS @ [GROUP_COL]) \<longrightarrow> r ! i \<noteq> Null) (rows df)
          = filter (complete_row df) (rows df)"
    by (rule filter_cong) (simp_all add: complete_row_iff)
  then show ?thesis
    unfolding make_clean_view_def dropna_eq required_present_iff
    by (simp add: Let_def copy_def)
qed

lemma housing_sample_present: "required_present housing_sample"
  by (simp add: required_present_def housing_sample_def labels_def NUMERIC_COLS_def GROUP_COL_def)

lemma housing_sample_complete:
  "filter (complete_row housing_sample) (rows housing_sample) =
     [[Num 100, Num 50, Num 3, Num 2, Num 2, Str ''yes'', Str ''furnished''],
      [Num 300, Num 70, Num 2, Num 1, Num 1, Null, Str ''furnished'']]"
  by (simp add: complete_row_def housing_sample_def labels_def NUMERIC_COLS_def GROUP_COL_def)

text \<open>
  C1: when the six labels are columns of the frame, \<^verbatim>\<open>make_clean_view\<close> returns a frame,
  and the frame it returns holds exactly the rows of the input in which every cell under
  price, area, bedrooms, bathrooms, stories and furnishingstatus is non-null, in the
  input's order. So a row that is complete in these six columns is kept whatever its
  other cells are, and the output never has more rows than the input.
\<close>

theorem make_clean_view_rows:
  "(required_present df \<longrightarrow> (\<exists>out. fst (make_clean_view df lg) = Inr out)) \<and>
   (\<forall>out. fst (make_clean_view df lg) = Inr out \<longrightarrow>
      rows out = filter (complete_row df) (rows df) \<and>
      (\<forall>r \<in> set (rows df). complete_row df r \<longrightarrow> r \<in> set (rows out)) \<and>
      length (rows out) \<le> length (rows df))"
  by (auto simp: make_clean_view_result split: if_splits)

theorem make_clean_view_rows_witness:
  "required_present housing_sample \<and>
   (\<exists>out. fst (make_clean_view housing_sample []) = Inr out \<and>
      rows out = [[Num 100, Num 50, Num 3, Num 2, Num 2, Str ''yes'', Str ''furnished''],
                  [Num 300, Num 70, Num 2, Num 1, Num 1, Null, Str ''furnished'']] \<and>
      length (rows out) \<le> length (rows housing_sample))"
  using make_clean_view_rows [of housing_sample "[]"] housing_sample_present
    housing_sample_complete
  by auto

text \<open>
  C9: the frame \<^verbatim>\<open>make_clean_view\<close> returns has the input's column headers (same labels,
  same order), and its rows are a subsequence of the input's rows: the retained rows
  keep their relative order.
\<close>

theorem make_clean_view_columns_order:
  "(required_present df \<longrightarrow> (\<exists>out. fst (make_clean_view df lg) = Inr out)) \<and>
   (\<forall>out. fst (make_clean_view df lg) = Inr out \<longrightarrow>
      columns out = columns df \<and> labels out = labels df \<and> subseq (rows out) (rows df))"
  by (auto simp: make_clean_view_result labels_def split: if_splits)

theorem make_clean_view_columns_order_witness:
  "required_present housing_sample \<and>
   (\<exists>out. fst (make_clean_view housing_sample []) = Inr out \<and>
      columns out = columns housing_sample \<and> subseq (rows out) (rows housing_sample))"
  using make_clean_view_columns_order [of housing_sample "[]"] housing_sample_present
  by auto

section \<open>The cleaned view is a new object\<close>

lemma make_clean_view_obj_eq:
  "make_clean_view_obj df h lg =
     (case fst (make_clean_view (h ! df) lg) of
        Inl e \<Rightarrow> (Inl e, h, snd (make_clean_view (h ! df) lg))
      | Inr t \<Rightarrow> (Inr (Suc (length h)), h @ [t, t], snd (make_clean_view (h ! df) lg)))"
  by (simp add: make_clean_view_obj_def make_clean_view_def alloc_def Let_def copy_def nth_append
      split: sum.splits)

text \<open>
  C5: \<^verbatim>\<open>make_clean_view\<close> leaves every frame of the store as it was, its argument among
  them, whether it returns or raises. The reference it returns is a new one, different
  from the argument, and it holds the cleaned view; an in-place operation on the frame
  behind it leaves the original frame unchanged.
\<close>

theorem make_clean_view_keeps_input:
  assumes "df < length h"
    and "make_clean_view_obj df h lg = (res, h', lg')"
  shows "h' ! df = h ! df \<and>
         (\<forall>r<length h. h' ! r = h ! r) \<and>
         (\<forall>out. res = Inr out \<longrightarrow>
            length h \<le> out \<and> out < length h' \<and> out \<noteq> df \<and>
            Inr (h' ! out) = fst (make_clean_view (h ! df) lg) \<and>
            (\<forall>f. update_inplace out f h' ! df = h ! df))"
  using assms
  by (auto simp: make_clean_view_obj_eq update_inplace_def nth_append split: sum.splits)

theorem make_clean_view_keeps_input_witness:
  "(0::nat) < length [housing_sample] \<and>
   fst (make_clean_view_obj 0 [housing_sample] []) = Inr 2 \<and>
   fst (snd (make_clean_view_obj 0 [housing_sample] [])) ! 0 = housing_sample \<and>
   update_inplace 2 head (fst (snd (make_clean_view_obj 0 [housing_sample] []))) ! 0
     = housing_sample"
proof -
  have res: "fst (make_clean_view_obj 0 [housing_sample] []) = Inr 2"
    by (simp add: make_clean_view_obj_eq make_clean_view_result housing_sample_present)
  have run: "make_clean_view_obj 0 [housing_sample] [] =
      (fst (make_clean_view_obj 0 [housing_sample] []),
       fst (snd (make_clean_view_obj 0 [housing_sample] [])),
       snd (snd (make_clean_view_obj 0 [housing_sample] [])))"
    by simp
  have "(0::nat) < length [housing_sample]"
    by simp
  from make_clean_view_keeps_input [OF this run] res show ?thesis
    by simp
qed

section \<open>Selecting columns by label\<close>

lemma positions_columns:
  "positions (labels df) c = filter (\<lambda>i. fst (columns df ! i) = c) [0..<length (columns df)]"
  unfolding positions_def labels_def by (rule filter_cong) simp_all

lemma indexer_positions: "[i. Some i \<leftarrow> get_indexer_for ls ts] = concat (map (positions ls) ts)"
proof (induction ts)
  case Nil
  then show ?case by (simp add: get_indexer_for_def)
next
  case (Cons t ts)
  have "[i. Some i \<leftarrow> (case positions ls t of [] \<Rightarrow> [None] | ps \<Rightarrow> map Some ps)] = positions ls t"
    by (cases "positions ls t") (simp_all add: comp_def)
  with Cons show ?case
    by (simp add: get_indexer_for_def)
qed

lemma selected_numeric:
  "[i. Some i \<leftarrow> get_indexer_for (labels df) NUMERIC_COLS] = numeric_positions df"
proof -
  have "positions (labels df)
      = (\<lambda>c. filter (\<lambda>i. fst (columns df ! i) = c) [0..<length (columns df)])"
    by (rule ext) (rule positions_columns)
  then show ?thesis
    by (simp only: indexer_positions numeric_positions_def)
qed

lemma group_positions: "positions (labels df) GROUP_COL = group_positions df"
  by (simp only: positions_columns group_positions_def)

lemma missing_labels_numeric: "missing_labels df NUMERIC_COLS = missing_numeric df"
  by (simp add: missing_labels_def missing_numeric_def labels_def)

lemma missing_numeric_Nil: "missing_numeric df = [] \<longleftrightarrow> set NUMERIC_COLS \<subseteq> set (labels df)"
  by (auto simp: missing_numeric_def labels_def filter_empty_conv)

lemma group_positions_Nil: "group_positions df = [] \<longleftrightarrow> GROUP_COL \<notin> set (labels df)"
  using positions_empty [of "labels df" GROUP_COL] by (simp add: group_positions)

lemma set_numeric_positions:
  "set (numeric_positions df)
     = {i. i < length (columns df) \<and> fst (columns df ! i) \<in> set NUMERIC_COLS}"
  by (auto simp: numeric_positions_def)

lemma set_group_positions:
  "set (group_positions df) = {i. i < length (columns df) \<and> fst (columns df ! i) = GROUP_COL}"
  by (auto simp: group_positions_def)

lemma getitem_numeric:
  "getitem NUMERIC_COLS df =
     (if missing_numeric df = [] then Inr (take_columns (numeric_positions df) df)
      else Inl (KeyError (missing_numeric df)))"
  unfolding getitem_def Let_def selected_numeric
  by (simp add: indexer_None missing_numeric_Nil missing_labels_numeric)

lemma required_present_split:
  "required_present df \<longleftrightarrow> missing_numeric df = [] \<and> group_positions df \<noteq> []"
  by (auto simp: required_present_iff missing_numeric_Nil group_positions_Nil)

lemma missing_labels_group:
  assumes "missing_numeric df = []" and "group_positions df = []"
  shows "missing_labels df (NUMERIC_COLS @ [GROUP_COL]) = [GROUP_COL]"
proof -
  from assms(1) have "filter (\<lambda>c. c \<notin> set (labels df)) NUMERIC_COLS = []"
    by (simp add: missing_numeric_def labels_def)
  with assms(2) show ?thesis
    by (simp add: missing_labels_def group_positions_Nil)
qed

lemma clean_of_columns [simp]:
  "columns (clean_of df) = columns df"
  "labels (clean_of df) = labels df"
  "missing_numeric (clean_of df) = missing_numeric df"
  "numeric_positions (clean_of df) = numeric_positions df"
  "group_positions (clean_of df) = group_positions df"
  by (simp_all add: clean_of_def labels_def missing_numeric_def numeric_positions_def
      group_positions_def)

lemma clean_of_rows: "set (rows (clean_of df)) = {r \<in> set (rows df). complete_row df r}"
  by (simp add: clean_of_def)

lemma make_clean_view_clean_of:
  "result (make_clean_view df) =
     (if required_present df then Inr (clean_of df)
      else Inl (KeyError (missing_labels df (NUMERIC_COLS @ [GROUP_COL]))))"
  by (simp add: result_def make_clean_view_result clean_of_def)

lemma map_nth_fun: "map (\<lambda>j. g (xs ! j)) [0..<length xs] = map g xs"
proof -
  have "map (\<lambda>j. g (xs ! j)) [0..<length xs] = map g (map (\<lambda>j. xs ! j) [0..<length xs])"
    by simp
  then show ?thesis
    by (simp only: map_nth)
qed

lemma column_take_columns:
  "j < length idx \<Longrightarrow> column (take_columns idx df) j = column df (idx ! j)"
  by (simp add: column_def take_columns_def)

lemma column_cells: "column df i = cells_at df i"
  by (simp add: column_def cells_at_def)

section \<open>Group keys\<close>

lemma set_insort_cell: "set (insort_cell k cs) = insert k (set cs)"
  by (induction cs) auto

lemma distinct_insort_cell: "distinct (insort_cell k cs) \<longleftrightarrow> k \<notin> set cs \<and> distinct cs"
  by (induction cs) (auto simp: set_insort_cell)

lemma set_sort_cells: "set (sort_cells cs) = set cs"
  by (induction cs) (simp_all add: sort_cells_def set_insort_cell)

lemma distinct_sort_cells: "distinct cs \<Longrightarrow> distinct (sort_cells cs)"
proof (induction cs)
  case Nil
  then show ?case by (simp add: sort_cells_def)
next
  case (Cons c cs)
  then have "c \<notin> set (sort_cells cs)" and "distinct (sort_cells cs)"
    by (simp_all add: set_sort_cells)
  then show ?case
    using distinct_insort_cell [of c "sort_cells cs"] by (simp add: sort_cells_def)
qed

lemma group_keys_distinct: "distinct (group_keys df g)"
  by (simp add: group_keys_def distinct_sort_cells)

lemma group_keys_set: "set (group_keys df g) = set (cells_at df g) - {Null}"
  by (auto simp: group_keys_def set_sort_cells notna_def column_cells)

section \<open>Results and logs of the stages\<close>

text \<open>
  Every stage returns what it returns from the empty log, and appends the same records
  to whatever log it finds.
\<close>

lemma load_data_log:
  "load_data rd lg = (result (load_data rd), lg @ appended (load_data rd))"
  by (simp add: load_data_def info_def Let_def result_def appended_def split: sum.splits)

lemma inspect_basic_log:
  "inspect_basic df lg = (Inr (), lg @ appended (inspect_basic df))"
  by (simp add: inspect_basic_def info_def debug_def Let_def appended_def)

lemma build_data_dictionary_log:
  "build_data_dictionary df lg =
     (Inr (projr (result (build_data_dictionary df))), lg @ appended (build_data_dictionary df))"
  by (simp add: build_data_dictionary_def info_def debug_def Let_def result_def appended_def)

lemma check_quality_log:
  "check_quality K df lg = (result (check_quality K df), lg @ appended (check_quality K df))"
  by (simp add: check_quality_def info_def debug_def Let_def result_def appended_def
      split: sum.splits)

lemma make_clean_view_log:
  "make_clean_view df lg = (result (make_clean_view df), lg @ appended (make_clean_view df))"
  by (simp add: make_clean_view_def info_def Let_def result_def appended_def split: sum.splits)

lemma descriptive_stats_log:
  "descriptive_stats K df lg =
     (result (descriptive_stats K df), lg @ appended (descriptive_stats K df))"
  by (simp add: descriptive_stats_def info_def debug_def Let_def result_def appended_def
      split: sum.splits)

lemma correlation_matrix_log:
  "correlation_matrix df lg =
     (result (correlation_matrix df), lg @ appended (correlation_matrix df))"
  by (simp add: correlation_matrix_def info_def debug_def Let_def result_def appended_def
      split: sum.splits)

lemma make_plots_log:
  "make_plots render df lg =
     (result (make_plots render df), lg @ appended (make_plots render df))"
  by (simp add: make_plots_def info_def Let_def result_def appended_def split: sum.splits)

lemma log_info_log: "log_info msg lg = (Inr (), lg @ [Log INFO msg []])"
  by (simp add: log_info_def info_def)

lemmas stage_logs = load_data_log inspect_basic_log build_data_dictionary_log check_quality_log
  make_clean_view_log descriptive_stats_log correlation_matrix_log make_plots_log log_info_log

lemma result_load_data: "result (load_data rd) = rd ''Housing.csv''"
  by (simp add: result_def load_data_def Let_def split: sum.splits)

lemma result_make_plots: "result (make_plots render df) = render df"
  by (simp add: result_def make_plots_def Let_def split: sum.splits)

lemma check_quality_result:
  "result (check_quality K df) =
     (case getitem NUMERIC_COLS df of Inl e \<Rightarrow> Inl e | Inr sel \<Rightarrow> Inr ())"
  by (simp add: result_def check_quality_def Let_def split: sum.splits)

lemma descriptive_stats_result:
  "result (descriptive_stats K df) =
     (case getitem NUMERIC_COLS df of
        Inl e \<Rightarrow> Inl e
      | Inr sel \<Rightarrow>
          (case groupby_agg K GROUP_COL NUMERIC_COLS df of
             Inl e \<Rightarrow> Inl e
           | Inr g \<Rightarrow> Inr (transposed (describe K sel), g)))"
  by (simp add: result_def descriptive_stats_def Let_def split: sum.splits)

lemma correlation_matrix_result:
  "result (correlation_matrix df) =
     (case getitem NUMERIC_COLS df of Inl e \<Rightarrow> Inl e | Inr sel \<Rightarrow> corr sel)"
  by (simp add: result_def correlation_matrix_def Let_def split: sum.splits)

section \<open>The workflow stops at the first error\<close>

lemmas main_steps =
  main_def [unfolded bind_def log_header_def, THEN fun_cong]

lemmas main_simps = main_steps stage_logs prod.case sum.case result_load_data result_make_plots
  log_opening_def log_to_load_def log_to_quality_def log_to_clean_def log_to_stats_def
  log_to_corr_def log_to_plots_def log_closing_def append_assoc append.simps

text \<open>The outcome and the log of \<^verbatim>\<open>main\<close>, by the outcomes of its stages.\<close>

lemma main_stages:
  "main read_csv render K lg =
     (case read_csv ''Housing.csv'' of
        Inl e \<Rightarrow> (Inl e, lg @ log_to_load read_csv)
      | Inr df \<Rightarrow>
     (case result (check_quality K df) of
        Inl e \<Rightarrow> (Inl e, lg @ log_to_quality read_csv K df)
      | Inr u \<Rightarrow>
     (case result (make_clean_view df) of
        Inl e \<Rightarrow> (Inl e, lg @ log_to_clean read_csv K df)
      | Inr df_clean \<Rightarrow>
     (case result (descriptive_stats K df_clean) of
        Inl e \<Rightarrow> (Inl e, lg @ log_to_stats read_csv K df df_clean)
      | Inr s \<Rightarrow>
     (case result (correlation_matrix df_clean) of
        Inl e \<Rightarrow> (Inl e, lg @ log_to_corr read_csv K df df_clean)
      | Inr c \<Rightarrow>
     (case render df_clean of
        Inl e \<Rightarrow> (Inl e, lg @ log_to_plots read_csv render K df df_clean)
      | Inr p \<Rightarrow> (Inr (), lg @ log_to_plots read_csv render K df df_clean @ log_closing)))))))"
proof (cases "read_csv ''Housing.csv''")
  case (Inl e)
  then show ?thesis
    by (simp only: main_simps)
next
  case rd: (Inr df)
  show ?thesis
  proof (cases "result (check_quality K df)")
    case (Inl e)
    with rd show ?thesis
      by (simp only: main_simps)
  next
    case cq: (Inr u)
    show ?thesis
    proof (cases "result (make_clean_view df)")
      case (Inl e)
      with rd cq show ?thesis
        by (simp only: main_simps)
    next
      case cv: (Inr df_clean)
      show ?thesis
      proof (cases "result (descriptive_stats K df_clean)")
        case (Inl e)
        with rd cq cv show ?thesis
          by (simp only: main_simps)
      next
        case ds: (Inr s)
        show ?thesis
        proof (cases "result (correlation_matrix df_clean)")
          case (Inl e)
          with rd cq cv ds show ?thesis
            by (simp only: main_simps)
        next
          case cm: (Inr c)
          show ?thesis
          proof (cases "render df_clean")
            case (Inl e)
            with rd cq cv ds cm show ?thesis
              by (simp only: main_simps)
          next
            case (Inr p)
            with rd cq cv ds cm show ?thesis
              by (simp only: main_simps)
          qed
        qed
      qed
    qed
  qed
qed

section \<open>The sections a log announces\<close>

lemma sections_append: "sections (xs @ ys) = sections xs @ sections ys"
  by (simp add: sections_def)

lemma sections_Cons: "sections (e # xs) = section_title e @ sections xs"
  by (simp add: sections_def)

lemma sections_Nil: "sections [] = []"
  by (simp add: sections_def)

lemma sections_load_data: "sections (appended (load_data rd)) = []"
  by (simp add: sections_def appended_def load_data_def Let_def info_def split: sum.splits)

lemma sections_inspect_basic: "sections (appended (inspect_basic df)) = []"
  by (simp add: sections_def appended_def inspect_basic_def Let_def info_def debug_def)

lemma sections_build_data_dictionary: "sections (appended (build_data_dictionary df)) = []"
  by (simp add: sections_def appended_def build_data_dictionary_def Let_def info_def debug_def)

lemma sections_check_quality: "sections (appended (check_quality K df)) = []"
  by (simp add: sections_def appended_def check_quality_def Let_def info_def debug_def
      split: sum.splits)

lemma sections_make_clean_view: "sections (appended (make_clean_view df)) = []"
  by (simp add: sections_def appended_def make_clean_view_def Let_def info_def split: sum.splits)

lemma sections_descriptive_stats: "sections (appended (descriptive_stats K df)) = []"
  by (simp add: sections_def appended_def descriptive_stats_def Let_def info_def debug_def
      split: sum.splits)

lemma sections_correlation_matrix: "sections (appended (correlation_matrix df)) = []"
  by (simp add: sections_def appended_def correlation_matrix_def Let_def info_def debug_def
      split: sum.splits)

lemma sections_make_plots: "sections (appended (make_plots render df)) = []"
  by (simp add: sections_def appended_def make_plots_def Let_def info_def split: sum.splits)

lemmas sections_stages = sections_append sections_Cons sections_Nil sections_load_data
  sections_inspect_basic
  sections_build_data_dictionary sections_check_quality sections_make_clean_view
  sections_descriptive_stats sections_correlation_matrix sections_make_plots

lemma sections_log_to_load: "sections (log_to_load rd) = take 2 section_titles"
  by (simp add: log_to_load_def log_opening_def sections_stages section_titles_def)

lemma sections_log_to_quality: "sections (log_to_quality rd K df) = take 4 section_titles"
  by (simp add: log_to_quality_def sections_stages sections_log_to_load section_titles_def)

lemma sections_log_to_clean: "sections (log_to_clean rd K df) = take 5 section_titles"
  by (simp add: log_to_clean_def sections_stages sections_log_to_quality section_titles_def)

lemma sections_log_to_stats: "sections (log_to_stats rd K df dfc) = take 6 section_titles"
  by (simp add: log_to_stats_def sections_stages sections_log_to_clean section_titles_def)

lemma sections_log_to_corr: "sections (log_to_corr rd K df dfc) = take 7 section_titles"
  by (simp add: log_to_corr_def sections_stages sections_log_to_stats section_titles_def)

lemma sections_log_to_plots:
  "sections (log_to_plots rd render K df dfc) = section_titles"
  by (simp add: log_to_plots_def sections_stages sections_log_to_corr section_titles_def)

lemma sections_log_closing: "sections log_closing = []"
  by (simp add: sections_stages log_closing_def)


section \<open>Outcomes of the stages\<close>

lemma numbers_values: "numbers cs = values_of cs"
  by (induction cs) (auto simp: numbers_def values_of_def split: cell.splits)

lemma count_present: "count_notna cs = present cs"
proof -
  have "notna = (\<lambda>c. c \<noteq> Null)"
    by (rule ext) (simp add: notna_def)
  then show ?thesis
    by (simp add: count_notna_def present_def)
qed

lemma minimum_least:
  "as_value (minimum cs) = least cs" "as_float64 (minimum cs) = least64 cs"
  by (cases "values_of cs";
      simp add: minimum_def least_def least64_def numbers_values Min.set_eq_fold [symmetric])+

lemma maximum_greatest:
  "as_value (maximum cs) = greatest cs" "as_float64 (maximum cs) = greatest64 cs"
  by (cases "values_of cs";
      simp add: maximum_def greatest_def greatest64_def numbers_values Max.set_eq_fold [symmetric])+

lemma agg_column_aggregates: "agg_column K cs = aggregates_of K cs"
  by (simp add: agg_column_def aggregates_of_def count_present minimum_least maximum_greatest)

lemma describe_column_summary: "describe_column K cs = summary_of K cs"
  by (simp add: describe_column_def summary_of_def count_present minimum_least maximum_greatest)

lemma check_quality_outcome:
  "result (check_quality K df) =
     (if missing_numeric df = [] then Inr () else Inl (KeyError (missing_numeric df)))"
  by (simp add: check_quality_result getitem_numeric)

text \<open>The grouped table of a frame whose grouping column stands at position \<open>g\<close>.\<close>

lemma groupby_agg_numeric:
  "groupby_agg K GROUP_COL NUMERIC_COLS df =
     (case group_positions df of
        [] \<Rightarrow> Inl (KeyError [GROUP_COL])
      | [g] \<Rightarrow>
          if missing_numeric df \<noteq> [] then Inl (KeyError (missing_numeric df))
          else if list_ex (\<lambda>i. snd (columns df ! i) = StringDtype) (numeric_positions df) \<or>
                  list_ex (\<lambda>k. list_ex (\<lambda>r. list_ex (\<lambda>i. is_text (r ! i)) (numeric_positions df))
                                  (group_rows df g k)) (group_keys df g)
          then Inl TypeError
          else Inr
            \<lparr>f_index = group_keys df g,
             f_columns =
               concat (map (\<lambda>i. map (\<lambda>s. (fst (columns df ! i), s)) agg_names)
                 (numeric_positions df)),
             f_values =
               map (\<lambda>k. concat (map (\<lambda>i. aggregates_of K (cells_of_group df g k i))
                                   (numeric_positions df)))
                 (group_keys df g)\<rparr>
      | _ \<Rightarrow> Inl ValueError)"
proof -
  have lbl: "map (\<lambda>i. map (\<lambda>s. (labels df ! i, s)) agg_names) (numeric_positions df)
      = map (\<lambda>i. map (\<lambda>s. (fst (columns df ! i), s)) agg_names) (numeric_positions df)"
    by (rule map_cong) (auto simp: set_numeric_positions labels_def)
  show ?thesis
    unfolding groupby_agg_def Let_def selected_numeric group_positions lbl
    by (simp add: indexer_None missing_numeric_Nil [symmetric] missing_labels_numeric
        agg_column_aggregates cells_of_group_def group_rows_def
        split: list.splits)
qed

lemma text_under_numeric_iff:
  "text_under_numeric df \<longleftrightarrow>
     (\<exists>i\<in>set (numeric_positions df).
        snd (columns df ! i) = StringDtype \<or> (\<exists>r\<in>set (rows df). is_text (r ! i)))"
  by (simp add: text_under_numeric_def list_ex_iff)

lemma grouped_text:
  assumes "\<forall>r\<in>set (rows df). r ! g \<noteq> Null"
  shows "list_ex (\<lambda>k. list_ex (\<lambda>r. list_ex (\<lambda>i. is_text (r ! i)) idx) (group_rows df g k))
           (group_keys df g)
         \<longleftrightarrow> (\<exists>i\<in>set idx. \<exists>r\<in>set (rows df). is_text (r ! i))"
proof
  assume "list_ex (\<lambda>k. list_ex (\<lambda>r. list_ex (\<lambda>i. is_text (r ! i)) idx) (group_rows df g k))
           (group_keys df g)"
  then show "\<exists>i\<in>set idx. \<exists>r\<in>set (rows df). is_text (r ! i)"
    by (auto simp: list_ex_iff group_rows_def)
next
  assume "\<exists>i\<in>set idx. \<exists>r\<in>set (rows df). is_text (r ! i)"
  then obtain i r where i: "i \<in> set idx" and r: "r \<in> set (rows df)" and t: "is_text (r ! i)"
    by blast
  from r assms have "r ! g \<in> set (group_keys df g)"
    by (auto simp: group_keys_set cells_at_def)
  moreover from r have "r \<in> set (group_rows df g (r ! g))"
    by (simp add: group_rows_def)
  ultimately show "list_ex (\<lambda>k. list_ex (\<lambda>r. list_ex (\<lambda>i. is_text (r ! i)) idx)
      (group_rows df g k)) (group_keys df g)"
    using i t unfolding list_ex_iff by blast
qed

lemma complete_group:
  assumes "complete_row df r" and "g \<in> set (group_positions df)"
  shows "r ! g \<noteq> Null"
  using assms by (auto simp: complete_row_iff set_group_positions labels_def)

lemma complete_row_clean_of: "complete_row (clean_of df) = complete_row df"
  by (rule ext) (simp add: complete_row_def)

lemma descriptive_stats_outcome:
  assumes "missing_numeric df = []" and "\<forall>r\<in>set (rows df). complete_row df r"
  shows "result (descriptive_stats K df) =
     (case group_positions df of
        [] \<Rightarrow> Inl (KeyError [GROUP_COL])
      | [g] \<Rightarrow>
          if text_under_numeric df then Inl TypeError
          else Inr (transposed (describe K (take_columns (numeric_positions df) df)),
                    \<lparr>f_index = group_keys df g,
                     f_columns =
                       concat (map (\<lambda>i. map (\<lambda>s. (fst (columns df ! i), s)) agg_names)
                         (numeric_positions df)),
                     f_values =
                       map (\<lambda>k. concat (map (\<lambda>i. aggregates_of K (cells_of_group df g k i))
                                           (numeric_positions df)))
                         (group_keys df g)\<rparr>)
      | _ \<Rightarrow> Inl ValueError)"
proof (cases "group_positions df")
  case Nil
  with assms(1) show ?thesis
    by (simp add: descriptive_stats_result getitem_numeric groupby_agg_numeric)
next
  case (Cons g gs)
  show ?thesis
  proof (cases gs)
    case Nil
    with Cons have g: "group_positions df = [g]"
      by simp
    then have "\<forall>r\<in>set (rows df). r ! g \<noteq> Null"
      using assms(2) complete_group [of df _ g] by simp
    from grouped_text [OF this, of "numeric_positions df"]
    have "list_ex (\<lambda>i. snd (columns df ! i) = StringDtype) (numeric_positions df) \<or>
        list_ex (\<lambda>k. list_ex (\<lambda>r. list_ex (\<lambda>i. is_text (r ! i)) (numeric_positions df))
          (group_rows df g k)) (group_keys df g) \<longleftrightarrow> text_under_numeric df"
      unfolding text_under_numeric_iff by (auto simp: list_ex_iff)
    with assms(1) g show ?thesis
      by (simp add: descriptive_stats_result getitem_numeric groupby_agg_numeric)
  next
    case (Cons g' gs')
    with \<open>group_positions df = g # gs\<close> assms(1) show ?thesis
      by (simp add: descriptive_stats_result getitem_numeric groupby_agg_numeric)
  qed
qed

lemma corr_selection:
  assumes "\<not> (\<exists>i\<in>set idx. \<exists>r\<in>set (rows df). is_text (r ! i))"
  shows "\<exists>c. corr (take_columns idx df) = Inr c"
proof -
  have "\<not> list_ex (\<lambda>r. list_ex is_text r) (rows (take_columns idx df))"
    using assms by (auto simp: take_columns_def list_ex_iff)
  then show ?thesis
    by (simp add: corr_def Let_def)
qed

lemma correlation_matrix_outcome:
  assumes "missing_numeric df = []" and "\<not> text_under_numeric df"
  shows "\<exists>c. result (correlation_matrix df) = Inr c"
proof -
  from assms(2) have "\<not> (\<exists>i\<in>set (numeric_positions df). \<exists>r\<in>set (rows df). is_text (r ! i))"
    by (auto simp: text_under_numeric_iff)
  from corr_selection [OF this] assms(1) show ?thesis
    by (simp add: correlation_matrix_result getitem_numeric)
qed


section \<open>The workflow ends with the first failure\<close>

lemma last_load_failed:
  "read_csv ''Housing.csv'' = Inl e \<Longrightarrow>
     last (lg @ log_to_load read_csv) = Log INFO ''Loading housing dataset from CSV'' []"
  by (simp add: log_to_load_def appended_def load_data_def Let_def info_def)

lemma last_quality_failed:
  "missing_numeric df \<noteq> [] \<Longrightarrow>
     last (lg @ log_to_quality read_csv K df) =
       Log INFO ''Basic sanity check for numeric columns'' []"
  by (simp add: log_to_quality_def appended_def check_quality_def Let_def info_def debug_def
      getitem_numeric)

lemma last_clean_failed:
  "\<not> required_present df \<Longrightarrow>
     last (lg @ log_to_clean read_csv K df) =
       Log INFO ''Creating cleaned view for EDA (dropping rows with key missing values)'' []"
  using make_clean_view_clean_of [of df]
  by (auto simp: log_to_clean_def appended_def result_def make_clean_view_def Let_def info_def
      split: sum.splits)

lemma last_stats_failed:
  "missing_numeric dfc = [] \<Longrightarrow> result (descriptive_stats K dfc) = Inl e \<Longrightarrow>
     last (lg @ log_to_stats read_csv K df dfc) =
       Log INFO ''Computing descriptive statistics by %s'' [ArgStr GROUP_COL]"
  by (auto simp: log_to_stats_def appended_def result_def descriptive_stats_def Let_def info_def
      debug_def getitem_numeric split: sum.splits)

lemma last_plots:
  "last (lg @ log_to_plots read_csv render K df dfc) =
     Log INFO ''Creating scatter plot: area vs price'' []"
  by (simp add: log_to_plots_def appended_def make_plots_def Let_def info_def split: sum.splits)

lemma last_closing:
  "last (lg @ xs @ log_closing) =
     Log INFO ''Close any chart windows and terminate this process with CTRL+c as needed.'' []"
  by (simp add: log_closing_def)

text \<open>
  C8: \<^verbatim>\<open>main\<close> ends with the first failure, whatever the file reader, the plotting
  library and the kernels are. If the reader raises, \<^verbatim>\<open>main\<close> raises the same error after
  announcing two sections. If one of the five numeric labels is no column of the frame,
  \<^verbatim>\<open>main\<close> raises the \<^verbatim>\<open>KeyError\<close> of \<^verbatim>\<open>check_quality\<close> that lists the absent labels, in
  section 4. If the grouping label is no column, it raises the \<^verbatim>\<open>KeyError\<close> of
  \<^verbatim>\<open>make_clean_view\<close>, in section 5. If the grouping label names several columns
  (\<^verbatim>\<open>ValueError\<close>), or a column under a numeric label has the dtype \<^verbatim>\<open>str\<close> or holds a text
  in a complete row (\<^verbatim>\<open>TypeError\<close>), it raises that error of the aggregation, in section 6.
  Otherwise it raises what the plotting raises, in section 8, or returns. In every case
  the log announces the sections up to the failing one and no later one, each once, and
  its last record is the one the failing stage wrote before the call that raised; only a
  run that returns ends with the closing records.
\<close>

theorem main_aborts_at_first_failure:
  "(\<forall>e. read_csv ''Housing.csv'' = Inl e \<longrightarrow>
      fst (main read_csv render K lg) = Inl e \<and>
      sections (drop (length lg) (snd (main read_csv render K lg))) = take 2 section_titles \<and>
      last (snd (main read_csv render K lg)) = Log INFO ''Loading housing dataset from CSV'' []) \<and>
   (\<forall>df. read_csv ''Housing.csv'' = Inr df \<longrightarrow>
      (missing_numeric df \<noteq> [] \<longrightarrow>
         fst (main read_csv render K lg) = Inl (KeyError (missing_numeric df)) \<and>
         sections (drop (length lg) (snd (main read_csv render K lg))) = take 4 section_titles \<and>
         last (snd (main read_csv render K lg)) =
           Log INFO ''Basic sanity check for numeric columns'' []) \<and>
      (missing_numeric df = [] \<and> group_positions df = [] \<longrightarrow>
         fst (main read_csv render K lg) = Inl (KeyError [GROUP_COL]) \<and>
         sections (drop (length lg) (snd (main read_csv render K lg))) = take 5 section_titles \<and>
         last (snd (main read_csv render K lg)) =
           Log INFO ''Creating cleaned view for EDA (dropping rows with key missing values)'' []) \<and>
      (missing_numeric df = [] \<and> 1 < length (group_positions df) \<longrightarrow>
         fst (main read_csv render K lg) = Inl ValueError \<and>
         sections (drop (length lg) (snd (main read_csv render K lg))) = take 6 section_titles \<and>
         last (snd (main read_csv render K lg)) =
           Log INFO ''Computing descriptive statistics by %s'' [ArgStr GROUP_COL]) \<and>
      (missing_numeric df = [] \<and> length (group_positions df) = 1 \<and>
       text_under_numeric (clean_of df) \<longrightarrow>
         fst (main read_csv render K lg) = Inl TypeError \<and>
         sections (drop (length lg) (snd (main read_csv render K lg))) = take 6 section_titles \<and>
         last (snd (main read_csv render K lg)) =
           Log INFO ''Computing descriptive statistics by %s'' [ArgStr GROUP_COL]) \<and>
      (missing_numeric df = [] \<and> length (group_positions df) = 1 \<and>
       \<not> text_under_numeric (clean_of df) \<longrightarrow>
         (\<forall>e. render (clean_of df) = Inl e \<longrightarrow>
            fst (main read_csv render K lg) = Inl e \<and>
            sections (drop (length lg) (snd (main read_csv render K lg))) = section_titles \<and>
            last (snd (main read_csv render K lg)) =
              Log INFO ''Creating scatter plot: area vs price'' []) \<and>
         (\<forall>u. render (clean_of df) = Inr u \<longrightarrow>
            fst (main read_csv render K lg) = Inr () \<and>
            sections (drop (length lg) (snd (main read_csv render K lg))) = section_titles \<and>
            last (snd (main read_csv render K lg)) =
              Log INFO ''Close any chart windows and terminate this process with CTRL+c as needed.''
                [])))"
proof (intro conjI allI impI; (elim conjE)?)
  fix e assume "read_csv ''Housing.csv'' = Inl e"
  then have run: "main read_csv render K lg = (Inl e, lg @ log_to_load read_csv)"
    by (simp add: main_stages)
  show "fst (main read_csv render K lg) = Inl e"
    and "sections (drop (length lg) (snd (main read_csv render K lg))) = take 2 section_titles"
    and "last (snd (main read_csv render K lg)) = Log INFO ''Loading housing dataset from CSV'' []"
    using \<open>read_csv ''Housing.csv'' = Inl e\<close>
    by (simp_all add: run sections_log_to_load last_load_failed)
next
  fix df assume rd: "read_csv ''Housing.csv'' = Inr df" and miss: "missing_numeric df \<noteq> []"
  then have run: "main read_csv render K lg =
      (Inl (KeyError (missing_numeric df)), lg @ log_to_quality read_csv K df)"
    by (simp add: main_stages check_quality_outcome)
  show "fst (main read_csv render K lg) = Inl (KeyError (missing_numeric df))"
    and "sections (drop (length lg) (snd (main read_csv render K lg))) = take 4 section_titles"
    and "last (snd (main read_csv render K lg)) =
           Log INFO ''Basic sanity check for numeric columns'' []"
    using miss by (simp_all add: run sections_log_to_quality last_quality_failed)
next
  fix df assume rd: "read_csv ''Housing.csv'' = Inr df" and num: "missing_numeric df = []"
    and grp: "group_positions df = []"
  then have absent: "\<not> required_present df"
    by (simp add: required_present_split)
  with rd num grp have run: "main read_csv render K lg =
      (Inl (KeyError [GROUP_COL]), lg @ log_to_clean read_csv K df)"
    by (simp add: main_stages check_quality_outcome make_clean_view_clean_of missing_labels_group)
  show "fst (main read_csv render K lg) = Inl (KeyError [GROUP_COL])"
    and "sections (drop (length lg) (snd (main read_csv render K lg))) = take 5 section_titles"
    and "last (snd (main read_csv render K lg)) =
           Log INFO ''Creating cleaned view for EDA (dropping rows with key missing values)'' []"
    using absent by (simp_all add: run sections_log_to_clean last_clean_failed)
next
  fix df assume rd: "read_csv ''Housing.csv'' = Inr df" and num: "missing_numeric df = []"
    and grp: "1 < length (group_positions df)"
  then have present: "required_present df"
    by (auto simp: required_present_split)
  have complete: "\<forall>r\<in>set (rows (clean_of df)). complete_row (clean_of df) r"
    by (simp add: complete_row_clean_of clean_of_rows)
  from grp obtain g g' gs where "group_positions df = g # g' # gs"
    by (cases "group_positions df"; cases "tl (group_positions df)") auto
  with descriptive_stats_outcome [OF _ complete, of K] num
  have stats: "result (descriptive_stats K (clean_of df)) = Inl ValueError"
    by simp
  with rd num present have run: "main read_csv render K lg =
      (Inl ValueError, lg @ log_to_stats read_csv K df (clean_of df))"
    by (simp add: main_stages check_quality_outcome make_clean_view_clean_of)
  show "fst (main read_csv render K lg) = Inl ValueError"
    and "sections (drop (length lg) (snd (main read_csv render K lg))) = take 6 section_titles"
    and "last (snd (main read_csv render K lg)) =
           Log INFO ''Computing descriptive statistics by %s'' [ArgStr GROUP_COL]"
    using last_stats_failed [OF _ stats, of lg read_csv df] num
    by (simp_all add: run sections_log_to_stats)
next
  fix df assume rd: "read_csv ''Housing.csv'' = Inr df" and num: "missing_numeric df = []"
    and grp: "length (group_positions df) = 1" and cells: "text_under_numeric (clean_of df)"
  then have present: "required_present df"
    by (auto simp: required_present_split)
  have complete: "\<forall>r\<in>set (rows (clean_of df)). complete_row (clean_of df) r"
    by (simp add: complete_row_clean_of clean_of_rows)
  from grp obtain g where "group_positions df = [g]"
    by (cases "group_positions df") auto
  with descriptive_stats_outcome [OF _ complete, of K] num cells
  have stats: "result (descriptive_stats K (clean_of df)) = Inl TypeError"
    by simp
  with rd num present have run: "main read_csv render K lg =
      (Inl TypeError, lg @ log_to_stats read_csv K df (clean_of df))"
    by (simp add: main_stages check_quality_outcome make_clean_view_clean_of)
  show "fst (main read_csv render K lg) = Inl TypeError"
    and "sections (drop (length lg) (snd (main read_csv render K lg))) = take 6 section_titles"
    and "last (snd (main read_csv render K lg)) =
           Log INFO ''Computing descriptive statistics by %s'' [ArgStr GROUP_COL]"
    using last_stats_failed [OF _ stats, of lg read_csv df] num
    by (simp_all add: run sections_log_to_stats)
next
  fix df e assume rd: "read_csv ''Housing.csv'' = Inr df" and num: "missing_numeric df = []"
    and grp: "length (group_positions df) = 1" and cells: "\<not> text_under_numeric (clean_of df)"
    and render: "render (clean_of df) = Inl e"
  then have present: "required_present df"
    by (auto simp: required_present_split)
  have complete: "\<forall>r\<in>set (rows (clean_of df)). complete_row (clean_of df) r"
    by (simp add: complete_row_clean_of clean_of_rows)
  from grp obtain g where "group_positions df = [g]"
    by (cases "group_positions df") auto
  with descriptive_stats_outcome [OF _ complete, of K] num cells
  obtain s where stats: "result (descriptive_stats K (clean_of df)) = Inr s"
    by simp
  from correlation_matrix_outcome [of "clean_of df"] num cells
  obtain c where corr: "result (correlation_matrix (clean_of df)) = Inr c"
    by auto
  from rd num present stats corr render have run: "main read_csv render K lg =
      (Inl e, lg @ log_to_plots read_csv render K df (clean_of df))"
    by (simp add: main_stages check_quality_outcome make_clean_view_clean_of)
  show "fst (main read_csv render K lg) = Inl e"
    and "sections (drop (length lg) (snd (main read_csv render K lg))) = section_titles"
    and "last (snd (main read_csv render K lg)) =
           Log INFO ''Creating scatter plot: area vs price'' []"
    by (simp_all add: run sections_log_to_plots last_plots)
next
  fix df u assume rd: "read_csv ''Housing.csv'' = Inr df" and num: "missing_numeric df = []"
    and grp: "length (group_positions df) = 1" and cells: "\<not> text_under_numeric (clean_of df)"
    and render: "render (clean_of df) = Inr u"
  then have present: "required_present df"
    by (auto simp: required_present_split)
  have complete: "\<forall>r\<in>set (rows (clean_of df)). complete_row (clean_of df) r"
    by (simp add: complete_row_clean_of clean_of_rows)
  from grp obtain g where "group_positions df = [g]"
    by (cases "group_positions df") auto
  with descriptive_stats_outcome [OF _ complete, of K] num cells
  obtain s where stats: "result (descriptive_stats K (clean_of df)) = Inr s"
    by simp
  from correlation_matrix_outcome [of "clean_of df"] num cells
  obtain c where corr: "result (correlation_matrix (clean_of df)) = Inr c"
    by auto
  from rd num present stats corr render have run: "main read_csv render K lg =
      (Inr (), lg @ log_to_plots read_csv render K df (clean_of df) @ log_closing)"
    by (simp add: main_stages check_quality_outcome make_clean_view_clean_of)
  show "fst (main read_csv render K lg) = Inr ()"
    and "sections (drop (length lg) (snd (main read_csv render K lg))) = section_titles"
    and "last (snd (main read_csv render K lg)) =
           Log INFO ''Close any chart windows and terminate this process with CTRL+c as needed.''
             []"
    by (simp_all add: run sections_append sections_log_to_plots sections_log_closing last_closing)
qed


lemma duplicate_sample_missing:
  "missing_numeric duplicate_sample = [''area'', ''bedrooms'', ''bathrooms'', ''stories'']"
  by (simp add: missing_numeric_def duplicate_sample_def NUMERIC_COLS_def)

lemma text_price_sample_layout:
  "missing_numeric text_price_sample = []"
  "group_positions text_price_sample = [5]"
  "text_under_numeric (clean_of text_price_sample)"
  by (simp_all add: missing_numeric_def group_positions_def text_under_numeric_def clean_of_def
      numeric_positions_def complete_row_def labels_def text_price_sample_def NUMERIC_COLS_def
      GROUP_COL_def)

lemma clean_sample_layout:
  "missing_numeric clean_sample = []"
  "group_positions clean_sample = [5]"
  "\<not> text_under_numeric clean_sample"
  "clean_of clean_sample = clean_sample"
  by (simp_all add: missing_numeric_def group_positions_def text_under_numeric_def clean_of_def
      numeric_positions_def complete_row_def labels_def clean_sample_def NUMERIC_COLS_def
      GROUP_COL_def)

theorem main_aborts_at_first_failure_witness:
  "main (\<lambda>path. Inl FileNotFoundError) (\<lambda>t. Inr ()) exact_kernels [] =
     (Inl FileNotFoundError,
      [Header ''Exploratory Data Analysis (EDA) - Housing Prices'',
       Log INFO ''Section 1: Setup at the top of the file'' [],
       Log INFO ''Section 2: Load the data'' [],
       Log INFO ''Loading housing dataset from CSV'' []]) \<and>
   fst (main (\<lambda>path. Inr duplicate_sample) (\<lambda>t. Inr ()) exact_kernels []) =
     Inl (KeyError [''area'', ''bedrooms'', ''bathrooms'', ''stories'']) \<and>
   sections (snd (main (\<lambda>path. Inr duplicate_sample) (\<lambda>t. Inr ()) exact_kernels [])) =
     [''Section 1: Setup at the top of the file'', ''Section 2: Load the data'',
      ''Section 3: Inspect data shape and basic structure'', ''Section 4: Check data quality''] \<and>
   last (snd (main (\<lambda>path. Inr duplicate_sample) (\<lambda>t. Inr ()) exact_kernels [])) =
     Log INFO ''Basic sanity check for numeric columns'' [] \<and>
   fst (main (\<lambda>path. Inr text_price_sample) (\<lambda>t. Inr ()) exact_kernels []) = Inl TypeError \<and>
   sections (snd (main (\<lambda>path. Inr text_price_sample) (\<lambda>t. Inr ()) exact_kernels [])) =
     take 6 section_titles \<and>
   last (snd (main (\<lambda>path. Inr text_price_sample) (\<lambda>t. Inr ()) exact_kernels [])) =
     Log INFO ''Computing descriptive statistics by %s'' [ArgStr ''furnishingstatus''] \<and>
   fst (main (\<lambda>path. Inr clean_sample) (\<lambda>t. Inl (OtherError ''no display'')) exact_kernels []) =
     Inl (OtherError ''no display'') \<and>
   last (snd (main (\<lambda>path. Inr clean_sample) (\<lambda>t. Inl (OtherError ''no display''))
     exact_kernels [])) = Log INFO ''Creating scatter plot: area vs price'' [] \<and>
   fst (main (\<lambda>path. Inr clean_sample) (\<lambda>t. Inr ()) exact_kernels []) = Inr () \<and>
   sections (snd (main (\<lambda>path. Inr clean_sample) (\<lambda>t. Inr ()) exact_kernels [])) =
     section_titles"
proof -
  note run = main_aborts_at_first_failure [where K = exact_kernels and lg = "[]"]
  have missing_file: "main (\<lambda>path. Inl FileNotFoundError) (\<lambda>t. Inr ()) exact_kernels [] =
     (Inl FileNotFoundError,
      [Header ''Exploratory Data Analysis (EDA) - Housing Prices'',
       Log INFO ''Section 1: Setup at the top of the file'' [],
       Log INFO ''Section 2: Load the data'' [],
       Log INFO ''Loading housing dataset from CSV'' []])"
    by (simp add: main_stages log_to_load_def log_opening_def appended_def load_data_def Let_def
        info_def)
  from run [of "\<lambda>path. Inr duplicate_sample" "\<lambda>t. Inr ()"]
  have missing_column:
    "fst (main (\<lambda>path. Inr duplicate_sample) (\<lambda>t. Inr ()) exact_kernels []) =
       Inl (KeyError [''area'', ''bedrooms'', ''bathrooms'', ''stories''])"
    "sections (snd (main (\<lambda>path. Inr duplicate_sample) (\<lambda>t. Inr ()) exact_kernels [])) =
       [''Section 1: Setup at the top of the file'', ''Section 2: Load the data'',
        ''Section 3: Inspect data shape and basic structure'', ''Section 4: Check data quality'']"
    "last (snd (main (\<lambda>path. Inr duplicate_sample) (\<lambda>t. Inr ()) exact_kernels [])) =
       Log INFO ''Basic sanity check for numeric columns'' []"
    by (simp_all add: duplicate_sample_missing section_titles_def)
  from run [of "\<lambda>path. Inr text_price_sample" "\<lambda>t. Inr ()"]
  have type_mismatch:
    "fst (main (\<lambda>path. Inr text_price_sample) (\<lambda>t. Inr ()) exact_kernels []) = Inl TypeError"
    "sections (snd (main (\<lambda>path. Inr text_price_sample) (\<lambda>t. Inr ()) exact_kernels [])) =
       take 6 section_titles"
    "last (snd (main (\<lambda>path. Inr text_price_sample) (\<lambda>t. Inr ()) exact_kernels [])) =
       Log INFO ''Computing descriptive statistics by %s'' [ArgStr ''furnishingstatus'']"
    by (simp_all add: text_price_sample_layout GROUP_COL_def)
  from run [of "\<lambda>path. Inr clean_sample" "\<lambda>t. Inl (OtherError ''no display'')"]
  have no_display:
    "fst (main (\<lambda>path. Inr clean_sample) (\<lambda>t. Inl (OtherError ''no display''))
       exact_kernels []) = Inl (OtherError ''no display'')"
    "last (snd (main (\<lambda>path. Inr clean_sample) (\<lambda>t. Inl (OtherError ''no display''))
       exact_kernels [])) = Log INFO ''Creating scatter plot: area vs price'' []"
    by (simp_all add: clean_sample_layout)
  from run [of "\<lambda>path. Inr clean_sample" "\<lambda>t. Inr ()"]
  have complete:
    "fst (main (\<lambda>path. Inr clean_sample) (\<lambda>t. Inr ()) exact_kernels []) = Inr ()"
    "sections (snd (main (\<lambda>path. Inr clean_sample) (\<lambda>t. Inr ()) exact_kernels [])) =
       section_titles"
    by (simp_all add: clean_sample_layout)
  from missing_file missing_column type_mismatch no_display complete show ?thesis
    by (intro conjI)
qed

section \<open>The data dictionary\<close>

lemma length_column: "length (column df j) = length (rows df)"
  by (simp add: column_def)

lemma missing_in_column: "length (filter isna (column df j)) = missing_in df j"
  by (simp add: missing_in_def column_def isna_def filter_map comp_def)

lemma isna_sum_missing: "isna_sum df = map (missing_in df) [0..<length (columns df)]"
  by (simp add: isna_sum_def missing_in_column)

lemma missing_in_le: "missing_in df j \<le> length (rows df)"
  by (simp add: missing_in_def)

text \<open>The percentage of \<open>c\<close> in \<open>n\<close> as the script computes it, step by step: the
  quotient, times 100, times 100 again, to the nearest integer, divided by 100.\<close>

lemma percentage_steps:
  fixes c n :: real
  assumes "0 \<le> c" and "c \<le> n" and "0 < n"
  shows "\<exists>r k. round2 (mul64 (div64 (Finite c) (Finite n)) (Finite 100)) = Finite r \<and>
           \<bar>r - of_int k / 100\<bar> \<le> 1 / 2 ^ 47 \<and>
           \<bar>of_int k - 10000 * c / n\<bar> \<le> 1 / 2 + 1 / 2 ^ 38"
proof -
  define q where "q = c / n"
  define \<epsilon> :: real where "\<epsilon> = 1 / 2 ^ 53"
  have eps: "0 < \<epsilon>" "\<epsilon> \<le> 1 / 1000000"
    by (simp_all add: \<epsilon>_def)
  from assms have q: "0 \<le> q" "q \<le> 1"
    by (simp_all add: q_def)
  then have "\<bar>q\<bar> < 2 ^ Suc 0"
    by simp
  from round64_within [OF this] obtain q1 where
    q1: "round64 q = Finite q1" and "q1 - q \<le> 2 ^ 0 / 2 ^ 53" "q - q1 \<le> 2 ^ 0 / 2 ^ 53"
    by auto
  then have e1: "q1 - q \<le> \<epsilon>" "q - q1 \<le> \<epsilon>"
    by (simp_all add: \<epsilon>_def)
  from q e1 eps have "\<bar>q1 * 100\<bar> < 128"
    by (simp only: abs_less_iff) linarith
  then have "\<bar>q1 * 100\<bar> < 2 ^ Suc 6"
    by simp
  from round64_within [OF this] obtain p1 where
    p1: "round64 (q1 * 100) = Finite p1"
    and "p1 - q1 * 100 \<le> 2 ^ 6 / 2 ^ 53" "q1 * 100 - p1 \<le> 2 ^ 6 / 2 ^ 53"
    by auto
  then have e2: "p1 - q1 * 100 \<le> 64 * \<epsilon>" "q1 * 100 - p1 \<le> 64 * \<epsilon>"
    by (simp_all add: \<epsilon>_def)
  from q e1 e2 eps have "\<bar>p1 * 100\<bar> < 16384"
    by (simp only: abs_less_iff) linarith
  then have "\<bar>p1 * 100\<bar> < 2 ^ Suc 13"
    by simp
  from round64_within [OF this] obtain s1 where
    s1: "round64 (p1 * 100) = Finite s1"
    and "s1 - p1 * 100 \<le> 2 ^ 13 / 2 ^ 53" "p1 * 100 - s1 \<le> 2 ^ 13 / 2 ^ 53"
    by auto
  then have e3: "s1 - p1 * 100 \<le> 8192 * \<epsilon>" "p1 * 100 - s1 \<le> 8192 * \<epsilon>"
    by (simp_all add: \<epsilon>_def)
  define k where "k = rint s1"
  have near: "\<bar>of_int k - s1\<bar> \<le> 1 / 2"
    unfolding k_def by (rule rint_near)
  have e4: "of_int k - s1 \<le> 1 / 2" "s1 - of_int k \<le> 1 / 2"
    using abs_le_D1 [OF near] abs_le_D2 [OF near] by simp_all
  from q e1 e2 e3 e4 eps have "\<bar>of_int k / 100 :: real\<bar> < 128"
    by (simp only: abs_less_iff) linarith
  then have "\<bar>of_int k / 100 :: real\<bar> < 2 ^ Suc 6"
    by simp
  from round64_near [OF this] obtain r where
    r: "round64 (of_int k / 100) = Finite r" and e5: "\<bar>r - of_int k / 100\<bar> \<le> 2 ^ 6 / 2 ^ 53"
    by auto
  from assms(3) have "round2 (mul64 (div64 (Finite c) (Finite n)) (Finite 100)) = Finite r"
    by (simp add: round2_def q_def [symmetric] q1 p1 s1 k_def [symmetric] r)
  moreover from e5 have "\<bar>r - of_int k / 100\<bar> \<le> 1 / 2 ^ 47"
    by simp
  moreover from e1 e2 e3 e4 eps have "\<bar>of_int k - 10000 * q\<bar> \<le> 1 / 2 + 32768 * \<epsilon>"
    by (simp only: abs_le_iff) linarith
  then have "\<bar>of_int k - 10000 * c / n\<bar> \<le> 1 / 2 + 1 / 2 ^ 38"
    by (simp add: q_def \<epsilon>_def)
  ultimately show ?thesis
    by blast
qed


lemma build_data_dictionary_result:
  "fst (build_data_dictionary df lg) =
     Inr \<lparr>dd_column = map fst (columns df),
          dd_dtype = map (\<lambda>c. str_dtype (snd c)) (columns df),
          dd_missing_count = map (missing_in df) [0..<length (columns df)],
          dd_missing_pct =
            map (\<lambda>j. round2 (mul64 (div64 (round64 (real (missing_in df j)))
                                            (round64 (real (length (rows df)))))
                                     (Finite 100)))
              [0..<length (columns df)]\<rparr>"
  by (simp add: build_data_dictionary_def Let_def labels_def isna_sum_missing isna_mean_def
      missing_in_column length_column comp_def)

lemma percentage_no_rows:
  "round2 (mul64 (div64 (round64 (real 0)) (round64 (real 0))) (Finite 100)) = NaN"
  by (simp add: round2_def)

text \<open>The percentages of 23 in 160, of 1 in 32 and of 3 in 32, step by step. The last
  two meet a number that ends in 5 at the third decimal: it goes to the even neighbour.\<close>

lemma percentage_23_of_160:
  "round2 (mul64 (div64 (Finite 23) (Finite 160)) (Finite 100)) =
     Finite (8089590830664253 / 2 ^ 49)"
proof -
  have a: "div64 (Finite 23) (Finite 160) = Finite (5179139571476070 / 2 ^ 55)"
    by simp (subst round64_at [where e = "- 3" and u = "1 / 2 ^ 55"];
        simp add: powr_minus_divide rint_def)
  have b: "mul64 (Finite (5179139571476070 / 2 ^ 55)) (Finite 100) =
      Finite (8092405580431359 / 2 ^ 49)"
    by simp (subst round64_at [where e = 3 and u = "1 / 2 ^ 49"];
        simp add: powr_minus_divide rint_def)
  have c: "mul64 (Finite (8092405580431359 / 2 ^ 49)) (Finite 100) =
      Finite (6322191859711999 / 2 ^ 42)"
    by simp (subst round64_at [where e = 10 and u = "1 / 2 ^ 42"];
        simp add: powr_minus_divide rint_def)
  have d: "rint64 (Finite (6322191859711999 / 2 ^ 42)) = Finite 1437"
    by (simp add: rint_def)
  have e: "div64 (Finite 1437) (Finite 100) = Finite (8089590830664253 / 2 ^ 49)"
    by simp (subst round64_at [where e = 3 and u = "1 / 2 ^ 49"];
        simp add: powr_minus_divide rint_def)
  show ?thesis
    by (simp only: round2_def a b c d e)
qed

lemma percentage_1_of_32:
  "round2 (mul64 (div64 (Finite 1) (Finite 32)) (Finite 100)) =
     Finite (7025615418697974 / 2 ^ 51)"
proof -
  have a: "div64 (Finite 1) (Finite 32) = Finite (1 / 32)"
    by simp (subst round64_at [where e = "- 5" and u = "1 / 2 ^ 57"];
        simp add: powr_minus_divide rint_def)
  have b: "mul64 (Finite (1 / 32)) (Finite 100) = Finite (25 / 8)"
    by simp (subst round64_at [where e = 1 and u = "1 / 2 ^ 51"];
        simp add: powr_minus_divide rint_def)
  have c: "mul64 (Finite (25 / 8)) (Finite 100) = Finite (625 / 2)"
    by simp (subst round64_at [where e = 8 and u = "1 / 2 ^ 44"];
        simp add: powr_minus_divide rint_def)
  have d: "rint64 (Finite (625 / 2)) = Finite 312"
    by (simp add: rint_def)
  have e: "div64 (Finite 312) (Finite 100) = Finite (7025615418697974 / 2 ^ 51)"
    by simp (subst round64_at [where e = 1 and u = "1 / 2 ^ 51"];
        simp add: powr_minus_divide rint_def)
  show ?thesis
    by (simp only: round2_def a b c d e)
qed

lemma percentage_3_of_32:
  "round2 (mul64 (div64 (Finite 3) (Finite 32)) (Finite 100)) =
     Finite (5280470563091907 / 2 ^ 49)"
proof -
  have a: "div64 (Finite 3) (Finite 32) = Finite (3 / 32)"
    by simp (subst round64_at [where e = "- 4" and u = "1 / 2 ^ 56"];
        simp add: powr_minus_divide rint_def)
  have b: "mul64 (Finite (3 / 32)) (Finite 100) = Finite (75 / 8)"
    by simp (subst round64_at [where e = 3 and u = "1 / 2 ^ 49"];
        simp add: powr_minus_divide rint_def)
  have c: "mul64 (Finite (75 / 8)) (Finite 100) = Finite (1875 / 2)"
    by simp (subst round64_at [where e = 9 and u = "1 / 2 ^ 43"];
        simp add: powr_minus_divide rint_def)
  have d: "rint64 (Finite (1875 / 2)) = Finite 938"
    by (simp add: rint_def)
  have e: "div64 (Finite 938) (Finite 100) = Finite (5280470563091907 / 2 ^ 49)"
    by simp (subst round64_at [where e = 3 and u = "1 / 2 ^ 49"];
        simp add: powr_minus_divide rint_def)
  show ?thesis
    by (simp only: round2_def a b c d e)
qed

lemma missing_sample_counts:
  "missing_in missing_sample 0 = 23" "length (rows missing_sample) = 160"
  "columns missing_sample = [(''price'', Float64)]"
  by (simp_all add: missing_in_def missing_sample_def)

lemma missing_sample_dictionary:
  "fst (build_data_dictionary missing_sample lg) =
     Inr \<lparr>dd_column = [''price''], dd_dtype = [''float64''], dd_missing_count = [23],
          dd_missing_pct = [Finite (8089590830664253 / 2 ^ 49)]\<rparr>"
proof -
  have exact: "round64 (real 23) = Finite 23" "round64 (real 160) = Finite 160"
    by simp_all
  have "[0..<length (columns missing_sample)] = [0]"
    by (simp add: missing_sample_counts)
  then have pct: "map (\<lambda>j. round2 (mul64 (div64 (round64 (real (missing_in missing_sample j)))
                                            (round64 (real (length (rows missing_sample)))))
                                     (Finite 100)))
              [0..<length (columns missing_sample)] = [Finite (8089590830664253 / 2 ^ 49)]"
    by (simp only: list.map missing_sample_counts exact percentage_23_of_160)
  show ?thesis
    unfolding build_data_dictionary_result pct by (simp add: missing_sample_counts)
qed

lemma empty_sample_dictionary:
  "fst (build_data_dictionary empty_sample lg) =
     Inr \<lparr>dd_column = [''price''], dd_dtype = [''float64''], dd_missing_count = [0],
          dd_missing_pct = [NaN]\<rparr>"
  by (simp add: build_data_dictionary_result empty_sample_def missing_in_def round2_def)

lemma tie_sample_counts:
  "map (missing_in tie_sample) [0..<length (columns tie_sample)] = [1, 3]"
  "length (rows tie_sample) = 32" "length (columns tie_sample) = 2" "rows tie_sample \<noteq> []"
  by (simp_all add: missing_in_def tie_sample_def)

lemma tie_sample_dictionary:
  "fst (build_data_dictionary tie_sample lg) =
     Inr \<lparr>dd_column = [''price'', ''area''], dd_dtype = [''float64'', ''float64''],
          dd_missing_count = [1, 3],
          dd_missing_pct = [Finite (7025615418697974 / 2 ^ 51),
                            Finite (5280470563091907 / 2 ^ 49)]\<rparr>"
proof -
  have exact: "round64 (real 1) = Finite 1" "round64 (real 3) = Finite 3"
    "round64 (real 32) = Finite 32"
    by simp_all
  have "map (\<lambda>j. round2 (mul64 (div64 (round64 (real (missing_in tie_sample j)))
                                     (round64 (real (length (rows tie_sample)))))
                              (Finite 100)))
          [0..<length (columns tie_sample)]
      = map (\<lambda>c. round2 (mul64 (div64 (round64 (real c)) (round64 (real 32))) (Finite 100)))
          (map (missing_in tie_sample) [0..<length (columns tie_sample)])"
    by (simp add: tie_sample_counts(2) comp_def)
  also have "\<dots> = [Finite (7025615418697974 / 2 ^ 51), Finite (5280470563091907 / 2 ^ 49)]"
    by (simp only: tie_sample_counts(1) list.map exact percentage_1_of_32 percentage_3_of_32)
  finally show ?thesis
    unfolding build_data_dictionary_result tie_sample_counts(1) by (simp add: tie_sample_def)
qed

text \<open>
  C2, as the specification states it, fails. Of the 160 rows of \<open>missing_sample\<close> 23
  have no price: the percentage is 14.375, which rounds to 14.38 (to the even neighbour as
  well as upwards). The script computes in doubles: 23 / 160 * 100 is
  14.374999999999998, and its \<^verbatim>\<open>missing_pct\<close> is the double next to 14.37. For
  \<open>empty_sample\<close>, which has no rows, nothing guards the quotient: the script returns
  normally, with the percentage \<^verbatim>\<open>NaN\<close>.
\<close>

theorem build_data_dictionary_counterexample:
  "dd_missing_count (projr (fst (build_data_dictionary missing_sample []))) = [23] \<and>
   length (rows missing_sample) = 160 \<and>
   rint (real 23 / real 160 * 100 * 100) = 1438 \<and>
   dd_missing_pct (projr (fst (build_data_dictionary missing_sample []))) =
     [Finite (8089590830664253 / 2 ^ 49)] \<and>
   \<bar>8089590830664253 / 2 ^ 49 - 1437 / 100\<bar> < (1 / 10 ^ 15 :: real) \<and>
   dd_missing_pct (projr (fst (build_data_dictionary empty_sample []))) = [NaN]"
  by (simp add: missing_sample_dictionary empty_sample_dictionary missing_sample_counts rint_def)

text \<open>
  C2, amended: \<^verbatim>\<open>build_data_dictionary\<close> returns, for every frame, a table with one row per
  column of the frame (each of its four arrays has one entry per column, the labels in
  order), and the count of row \<open>j\<close> is the number of missing cells of column \<open>j\<close>. For a frame
  without rows nothing guards the quotient, and every percentage is \<^verbatim>\<open>NaN\<close>. For a frame
  with rows (fewer than \<open>2 ^ 53\<close>) the percentage is computed in doubles, as the quotient
  of count and number of rows, times 100, rounded by \<^verbatim>\<open>round(2)\<close>: it is a double within
  \<open>2 ^ - 47\<close> of a number \<open>k / 100\<close> with two decimals, where the integer \<open>k\<close> is within
  \<open>1 / 2 + 2 ^ - 38\<close> of the exact percentage times 100. So it is the exact percentage
  rounded to two decimals unless that lies within \<open>2 ^ - 38 / 100\<close> of the middle between
  two such numbers, where the neighbour on either side may result.
\<close>

theorem build_data_dictionary_rows:
  "\<exists>dd. fst (build_data_dictionary df lg) = Inr dd \<and>
     dd_column dd = map fst (columns df) \<and>
     length (dd_column dd) = length (columns df) \<and>
     length (dd_dtype dd) = length (columns df) \<and>
     length (dd_missing_count dd) = length (columns df) \<and>
     length (dd_missing_pct dd) = length (columns df) \<and>
     (\<forall>j<length (columns df).
        dd_missing_count dd ! j = missing_in df j \<and>
        (rows df = [] \<longrightarrow> dd_missing_pct dd ! j = NaN) \<and>
        (rows df \<noteq> [] \<and> length (rows df) < 2 ^ 53 \<longrightarrow>
           (\<exists>r k. dd_missing_pct dd ! j = Finite r \<and>
              \<bar>r - of_int k / 100\<bar> \<le> 1 / 2 ^ 47 \<and>
              \<bar>of_int k - 10000 * real (missing_in df j) / real (length (rows df))\<bar>
                \<le> 1 / 2 + 1 / 2 ^ 38)))"
proof -
  have none: "round2 (mul64 (div64 (round64 (real (missing_in df j)))
        (round64 (real (length (rows df))))) (Finite 100)) = NaN"
    if "rows df = []" for j
    using that by (simp add: missing_in_def round2_def)
  have some: "\<exists>r k. round2 (mul64 (div64 (round64 (real (missing_in df j)))
        (round64 (real (length (rows df))))) (Finite 100)) = Finite r \<and>
      \<bar>r - of_int k / 100\<bar> \<le> 1 / 2 ^ 47 \<and>
      \<bar>of_int k - 10000 * real (missing_in df j) / real (length (rows df))\<bar>
        \<le> 1 / 2 + 1 / 2 ^ 38"
    if "rows df \<noteq> []" and "length (rows df) < 2 ^ 53" for j
  proof -
    from that(2) missing_in_le [of df j] have "missing_in df j < 2 ^ 53"
      by simp
    with that(2) have exact: "round64 (real (missing_in df j)) = Finite (real (missing_in df j))"
      "round64 (real (length (rows df))) = Finite (real (length (rows df)))"
      by (simp_all add: round64_nat)
    have "0 \<le> real (missing_in df j)"
      and "real (missing_in df j) \<le> real (length (rows df))"
      and "0 < real (length (rows df))"
      using that(1) missing_in_le [of df j] by simp_all
    from percentage_steps [OF this] show ?thesis
      unfolding exact .
  qed
  show ?thesis
    unfolding build_data_dictionary_result using none some by simp
qed

theorem build_data_dictionary_rows_witness:
  "\<exists>dd. fst (build_data_dictionary tie_sample []) = Inr dd \<and>
     length (dd_column dd) = 2 \<and>
     dd_missing_count dd = [1, 3] \<and>
     dd_missing_pct dd = [Finite (7025615418697974 / 2 ^ 51), Finite (5280470563091907 / 2 ^ 49)] \<and>
     (\<exists>r k. dd_missing_pct dd ! 1 = Finite r \<and>
        \<bar>r - of_int k / 100\<bar> \<le> 1 / 2 ^ 47 \<and>
        \<bar>of_int k - 10000 * real 3 / real 32\<bar> \<le> 1 / 2 + 1 / 2 ^ 38)"
proof -
  note shape = tie_sample_counts(2-4)
  from build_data_dictionary_rows [of tie_sample "[]"] obtain dd where
    dd: "fst (build_data_dictionary tie_sample []) = Inr dd"
    and len: "length (dd_column dd) = length (columns tie_sample)"
    and row: "\<forall>j<length (columns tie_sample).
        dd_missing_count dd ! j = missing_in tie_sample j \<and>
        (rows tie_sample = [] \<longrightarrow> dd_missing_pct dd ! j = NaN) \<and>
        (rows tie_sample \<noteq> [] \<and> length (rows tie_sample) < 2 ^ 53 \<longrightarrow>
           (\<exists>r k. dd_missing_pct dd ! j = Finite r \<and>
              \<bar>r - of_int k / 100\<bar> \<le> 1 / 2 ^ 47 \<and>
              \<bar>of_int k - 10000 * real (missing_in tie_sample j)
                  / real (length (rows tie_sample))\<bar>
                \<le> 1 / 2 + 1 / 2 ^ 38))"
    by blast
  from dd tie_sample_dictionary [of "[]"] have count: "dd_missing_count dd = [1, 3]"
    and pct: "dd_missing_pct dd =
      [Finite (7025615418697974 / 2 ^ 51), Finite (5280470563091907 / 2 ^ 49)]"
    by auto
  have one: "1 < length (columns tie_sample)"
    by (simp add: shape)
  from row [rule_format, OF one]
  have m: "dd_missing_count dd ! 1 = missing_in tie_sample 1"
    and bounds: "rows tie_sample \<noteq> [] \<and> length (rows tie_sample) < 2 ^ 53 \<longrightarrow>
           (\<exists>r k. dd_missing_pct dd ! 1 = Finite r \<and>
              \<bar>r - of_int k / 100\<bar> \<le> 1 / 2 ^ 47 \<and>
              \<bar>of_int k - 10000 * real (missing_in tie_sample 1)
                  / real (length (rows tie_sample))\<bar>
                \<le> 1 / 2 + 1 / 2 ^ 38)"
    by blast+
  from m count have m1: "missing_in tie_sample 1 = 3"
    by simp
  have "rows tie_sample \<noteq> [] \<and> length (rows tie_sample) < 2 ^ 53"
    by (simp add: shape)
  with bounds
  have "\<exists>r k. dd_missing_pct dd ! 1 = Finite r \<and>
        \<bar>r - of_int k / 100\<bar> \<le> 1 / 2 ^ 47 \<and>
        \<bar>of_int k - 10000 * real (missing_in tie_sample 1)
            / real (length (rows tie_sample))\<bar>
          \<le> 1 / 2 + 1 / 2 ^ 38"
    by (rule mp)
  then have "\<exists>r k. dd_missing_pct dd ! 1 = Finite r \<and>
        \<bar>r - of_int k / 100\<bar> \<le> 1 / 2 ^ 47 \<and>
        \<bar>of_int k - 10000 * real 3 / real 32\<bar> \<le> 1 / 2 + 1 / 2 ^ 38"
    by (simp only: m1 shape(1))
  with dd len shape count pct show ?thesis
    by (intro exI [of _ dd] conjI) simp_all
qed

section \<open>Duplicate rows\<close>

lemma dup_flags_nth:
  "dup_flags seen rs = map (\<lambda>j. rs ! j \<in> set seen \<union> set (take j rs)) [0..<length rs]"
proof (induction rs arbitrary: seen)
  case Nil
  then show ?case by simp
next
  case (Cons r rs)
  have "map (\<lambda>j. (r # rs) ! j \<in> set seen \<union> set (take j (r # rs))) [0..<length (r # rs)]
      = (r \<in> set seen)
        # map (\<lambda>j. rs ! j \<in> set (seen @ [r]) \<union> set (take j rs)) [0..<length rs]"
    by (auto simp: upt_conv_Cons map_Suc_upt [symmetric] simp del: upt_Suc)
  with Cons.IH [of "seen @ [r]"] show ?case
    by simp
qed

lemma earlier_equal:
  assumes "j < length rs"
  shows "rs ! j \<in> set (take j rs) \<longleftrightarrow> 0 < length (filter (\<lambda>i. rs ! i = rs ! j) [0..<j])"
proof -
  have "rs ! j \<in> set (take j rs) \<longleftrightarrow> (\<exists>i<j. rs ! i = rs ! j)"
    using assms by (auto simp: in_set_conv_nth)
  also have "\<dots> \<longleftrightarrow> filter (\<lambda>i. rs ! i = rs ! j) [0..<j] \<noteq> []"
    by (auto simp: filter_empty_conv)
  finally show ?thesis
    by simp
qed

lemma one_positive:
  fixes cs :: "nat list"
  shows "sum_list cs = 1 \<Longrightarrow> length (filter (\<lambda>c. 0 < c) cs) = 1"
proof (induction cs)
  case Nil
  then show ?case by simp
next
  case (Cons c cs)
  show ?case
  proof (cases "c = 0")
    case True
    with Cons show ?thesis by simp
  next
    case False
    from Cons.prems have "c + sum_list cs = 1"
      by simp
    with False have "c = 1 \<and> sum_list cs = 0"
      by arith
    then have "c = 1" and "\<forall>n\<in>set cs. n = 0"
      by simp_all
    then show ?thesis
      by (simp add: filter_empty_conv)
  qed
qed

lemma duplicated_count:
  assumes "columns df \<noteq> []" and "one_duplicate_row df"
  shows "length (filter id (duplicated df)) = 1"
proof -
  let ?rs = "rows df"
  let ?c = "\<lambda>j. length (filter (\<lambda>i. ?rs ! i = ?rs ! j) [0..<j])"
  have total: "sum_list (map ?c [0..<length ?rs]) = 1"
    using assms(2) by (simp add: one_duplicate_row_def equal_pairs_def length_concat comp_def)
  then have "?rs \<noteq> []"
    by auto
  with assms(1) have "duplicated df = map (\<lambda>j. ?rs ! j \<in> set (take j ?rs)) [0..<length ?rs]"
    by (simp add: duplicated_def dup_flags_nth)
  also have "\<dots> = map (\<lambda>j. 0 < ?c j) [0..<length ?rs]"
    by (rule map_cong) (simp_all add: earlier_equal)
  finally have "length (filter id (duplicated df))
      = length (filter (\<lambda>c. 0 < c) (map ?c [0..<length ?rs]))"
    by (simp add: filter_map comp_def)
  with one_positive [OF total] show ?thesis
    by simp
qed

lemma check_quality_appended:
  "appended (check_quality K df) =
     [Log INFO ''Checking missing values per column'' [],
      Log DEBUG nl_fmt
        [ArgCounts (sort_values_desc (argsort_ties K) (zip (labels df) (isna_sum df)))],
      Log INFO ''Duplicate rows detected: %s'' [ArgNat (length (filter id (duplicated df)))],
      Log INFO ''Basic sanity check for numeric columns'' []]
     @ (case getitem NUMERIC_COLS df of
          Inl e \<Rightarrow> []
        | Inr sel \<Rightarrow> [Log DEBUG nl_fmt [ArgSummary (describe K sel)]])"
  by (simp add: appended_def check_quality_def Let_def info_def debug_def split: sum.splits)

lemma duplicate_sample_one: "one_duplicate_row duplicate_sample"
  by (simp add: one_duplicate_row_def equal_pairs_def duplicate_sample_def)

text \<open>
  C6: when a frame with at least one column has exactly one exact duplicate row (exactly
  one pair of rows agrees in every column), \<^verbatim>\<open>check_quality\<close> counts one duplicate row, and
  the third record it logs reports the count 1.
\<close>

theorem check_quality_duplicate_count:
  assumes "columns df \<noteq> []" and "one_duplicate_row df"
  shows "length (filter id (duplicated df)) = 1 \<and>
         drop (length lg) (snd (check_quality K df lg)) ! 2 =
           Log INFO ''Duplicate rows detected: %s'' [ArgNat 1]"
  using duplicated_count [OF assms]
  by (simp add: check_quality_log check_quality_appended)

theorem check_quality_duplicate_count_witness:
  "columns duplicate_sample \<noteq> [] \<and> one_duplicate_row duplicate_sample \<and>
   length (filter id (duplicated duplicate_sample)) = 1 \<and>
   drop (length [Header ''run''])
     (snd (check_quality exact_kernels duplicate_sample [Header ''run''])) ! 2 =
     Log INFO ''Duplicate rows detected: %s'' [ArgNat 1]"
proof -
  have cols: "columns duplicate_sample \<noteq> []"
    by (simp add: duplicate_sample_def)
  from check_quality_duplicate_count [OF cols duplicate_sample_one, of "[Header ''run'']"
      exact_kernels]
    cols duplicate_sample_one
  show ?thesis
    by simp
qed

section \<open>Selecting and summarising the numeric columns\<close>

lemma sort_values_desc_sorted: "sorted (rev (map snd (sort_values_desc ties s)))"
  by (simp add: sort_values_desc_def Let_def rev_map [symmetric])

lemma sort_values_desc_mset: "mset (sort_values_desc ties s) = mset s"
proof -
  have "mset (map (\<lambda>i. s ! i) (sort_key (ties (map snd s)) [0..<length s]))
      = image_mset (\<lambda>i. s ! i) (mset (sort_key (ties (map snd s)) [0..<length s]))"
    by simp
  also have "\<dots> = image_mset (\<lambda>i. s ! i) (mset [0..<length s])"
    by (simp only: mset_sort)
  also have "\<dots> = mset (map (\<lambda>i. s ! i) [0..<length s])"
    by simp
  also have "\<dots> = mset s"
    by (simp only: map_nth)
  finally show ?thesis
    by (simp add: sort_values_desc_def Let_def)
qed

lemma filter_nth: "map ((!) xs) (filter (\<lambda>j. P (xs ! j)) [0..<length xs]) = filter P xs"
proof -
  have "filter P (map ((!) xs) [0..<length xs])
      = map ((!) xs) (filter (P \<circ> (!) xs) [0..<length xs])"
    by (rule filter_map)
  then show ?thesis
    by (simp add: map_nth comp_def)
qed

lemma is_numeric_dtype_iff: "is_numeric_dtype d \<longleftrightarrow> d = Int64 \<or> d = Float64"
  by (cases d) simp_all

lemma numeric_dtype_positions_filter:
  "filter (\<lambda>i. is_numeric_dtype (snd (columns df ! i))) (numeric_positions df)
     = numeric_dtype_positions df"
  by (simp add: numeric_dtype_positions_def is_numeric_dtype_iff)

text \<open>The summary of a selection of columns covers those of a numeric dtype.\<close>

lemma describe_selection:
  "describe K (take_columns idx df) =
     (let num = filter (\<lambda>i. is_numeric_dtype (snd (columns df ! i))) idx
      in if num = [] then Categorical_summary (take_columns idx df)
         else Numeric_summary
           \<lparr>f_index = stat_names, f_columns = map (\<lambda>i. fst (columns df ! i)) num,
            f_values = map (\<lambda>k. map (\<lambda>i. summary_of K (cells_at df i) ! k) num)
                         [0..<length stat_names]\<rparr>)"
proof -
  let ?sel = "take_columns idx df"
  let ?P = "\<lambda>i. is_numeric_dtype (snd (columns df ! i))"
  define numeric where "numeric = filter (\<lambda>j. ?P (idx ! j)) [0..<length idx]"
  have len: "length (columns ?sel) = length idx"
    by (simp add: take_columns_def)
  have bound: "j < length idx" if "j \<in> set numeric" for j
    using that by (simp add: numeric_def)
  have sel: "filter (\<lambda>j. is_numeric_dtype (snd (columns ?sel ! j))) [0..<length (columns ?sel)]
      = numeric"
    unfolding len numeric_def by (rule filter_cong) (simp_all add: take_columns_def)
  have num: "map ((!) idx) numeric = filter ?P idx"
    unfolding numeric_def by (rule filter_nth)
  have "map (\<lambda>j. fst (columns ?sel ! j)) numeric = map (\<lambda>j. fst (columns df ! (idx ! j))) numeric"
    by (rule map_cong) (simp_all add: take_columns_def bound)
  also have "\<dots> = map (\<lambda>i. fst (columns df ! i)) (map ((!) idx) numeric)"
    by (simp add: comp_def)
  finally have cols: "map (\<lambda>j. fst (columns ?sel ! j)) numeric
      = map (\<lambda>i. fst (columns df ! i)) (filter ?P idx)"
    by (simp only: num)
  have vals: "map (\<lambda>j. describe_column K (column ?sel j) ! k) numeric
      = map (\<lambda>i. summary_of K (cells_at df i) ! k) (filter ?P idx)" for k
  proof -
    have "map (\<lambda>j. describe_column K (column ?sel j) ! k) numeric
        = map (\<lambda>j. summary_of K (cells_at df (idx ! j)) ! k) numeric"
      by (rule map_cong)
        (simp_all add: column_take_columns [unfolded column_cells] bound describe_column_summary
          column_cells)
    also have "\<dots> = map (\<lambda>i. summary_of K (cells_at df i) ! k) (map ((!) idx) numeric)"
      by (simp add: comp_def)
    finally show ?thesis
      by (simp only: num)
  qed
  have empty: "numeric = [] \<longleftrightarrow> filter ?P idx = []"
    using num by (metis map_is_Nil_conv)
  show ?thesis
    unfolding describe_def Let_def sel cols vals empty ..
qed


lemma length_summary_of: "length (summary_of K cs) = length stat_names"
  by (simp add: summary_of_def stat_names_def)

lemma summary_column:
  assumes "m < length num"
  shows "map (\<lambda>row. row ! m)
           (map (\<lambda>k. map (\<lambda>i. summary_of K (cells_at df i) ! k) num) [0..<length stat_names])
         = summary_of K (cells_at df (num ! m))"
proof -
  have "map (\<lambda>row. row ! m)
           (map (\<lambda>k. map (\<lambda>i. summary_of K (cells_at df i) ! k) num) [0..<length stat_names])
      = map (\<lambda>k. summary_of K (cells_at df (num ! m)) ! k)
          [0..<length (summary_of K (cells_at df (num ! m)))]"
    using assms by (simp add: length_summary_of)
  then show ?thesis
    by (simp only: map_nth)
qed

lemma check_quality_logged:
  "drop (length lg) (snd (check_quality K df lg)) =
     [Log INFO ''Checking missing values per column'' [],
      Log DEBUG nl_fmt
        [ArgCounts (sort_values_desc (argsort_ties K)
           (zip (map fst (columns df)) (map (missing_in df) [0..<length (columns df)])))],
      Log INFO ''Duplicate rows detected: %s'' [ArgNat (length (filter id (duplicated df)))],
      Log INFO ''Basic sanity check for numeric columns'' []]
     @ (if missing_numeric df = []
        then [Log DEBUG nl_fmt
                [ArgSummary (describe K (take_columns (numeric_positions df) df))]]
        else [])"
  by (simp add: check_quality_log check_quality_appended getitem_numeric labels_def
      isna_sum_missing)

lemma text_price_summary:
  "snd (check_quality exact_kernels text_price_sample []) ! 4 =
     Log DEBUG nl_fmt
       [ArgSummary (Numeric_summary
          \<lparr>f_index = [''count'', ''mean'', ''std'', ''min'', ''25%'', ''50%'', ''75%'', ''max''],
           f_columns = [''area'', ''bedrooms'', ''bathrooms'', ''stories''],
           f_values = [[Finite 1, Finite 1, Finite 1, Finite 1],
                       [Finite 50, Finite 3, Finite 1, Finite 2],
                       [NaN, NaN, NaN, NaN],
                       [Finite 50, Finite 3, Finite 1, Finite 2],
                       [Finite 50, Finite 3, Finite 1, Finite 2],
                       [Finite 50, Finite 3, Finite 1, Finite 2],
                       [Finite 50, Finite 3, Finite 1, Finite 2],
                       [Finite 50, Finite 3, Finite 1, Finite 2]]\<rparr>)]"
proof -
  have sel: "take_columns (numeric_positions text_price_sample) text_price_sample =
      \<lparr>columns = [(''price'', Object), (''area'', Int64), (''bedrooms'', Int64),
                   (''bathrooms'', Int64), (''stories'', Int64)],
       rows = [[Str ''n/a'', Num 50, Num 3, Num 1, Num 2]]\<rparr>"
    by (simp add: numeric_positions_def take_columns_def text_price_sample_def NUMERIC_COLS_def)
  have summary: "describe exact_kernels
      \<lparr>columns = [(''price'', Object), (''area'', Int64), (''bedrooms'', Int64),
                   (''bathrooms'', Int64), (''stories'', Int64)],
       rows = [[Str ''n/a'', Num 50, Num 3, Num 1, Num 2]]\<rparr> =
     Numeric_summary
          \<lparr>f_index = [''count'', ''mean'', ''std'', ''min'', ''25%'', ''50%'', ''75%'', ''max''],
           f_columns = [''area'', ''bedrooms'', ''bathrooms'', ''stories''],
           f_values = [[Finite 1, Finite 1, Finite 1, Finite 1],
                       [Finite 50, Finite 3, Finite 1, Finite 2],
                       [NaN, NaN, NaN, NaN],
                       [Finite 50, Finite 3, Finite 1, Finite 2],
                       [Finite 50, Finite 3, Finite 1, Finite 2],
                       [Finite 50, Finite 3, Finite 1, Finite 2],
                       [Finite 50, Finite 3, Finite 1, Finite 2],
                       [Finite 50, Finite 3, Finite 1, Finite 2]]\<rparr>"
    by (simp add: describe_def Let_def stat_names_def describe_column_def column_def
        count_notna_def notna_def minimum_def maximum_def numbers_def exact_kernels_def mean_def
        std_def quantile_def)
  from check_quality_logged [of "[]" exact_kernels text_price_sample] show ?thesis
    unfolding sel summary by (simp add: text_price_sample_layout)
qed


text \<open>
  C7, as the specification states it, fails: \<open>text_price_sample\<close> has the five columns,
  but its price column holds text, and the summary \<^verbatim>\<open>check_quality\<close> logs is not that of
  the five numeric columns: it has the four columns area, bedrooms, bathrooms and
  stories. And for \<open>duplicate_sample\<close>, which lacks four of the columns, \<^verbatim>\<open>check_quality\<close>
  does not return: it raises \<^verbatim>\<open>KeyError\<close>.
\<close>

theorem check_quality_summary_counterexample:
  "fst (check_quality exact_kernels text_price_sample []) = Inr () \<and>
   snd (check_quality exact_kernels text_price_sample []) ! 4 =
     Log DEBUG nl_fmt
       [ArgSummary (Numeric_summary
          \<lparr>f_index = [''count'', ''mean'', ''std'', ''min'', ''25%'', ''50%'', ''75%'', ''max''],
           f_columns = [''area'', ''bedrooms'', ''bathrooms'', ''stories''],
           f_values = [[Finite 1, Finite 1, Finite 1, Finite 1],
                       [Finite 50, Finite 3, Finite 1, Finite 2],
                       [NaN, NaN, NaN, NaN],
                       [Finite 50, Finite 3, Finite 1, Finite 2],
                       [Finite 50, Finite 3, Finite 1, Finite 2],
                       [Finite 50, Finite 3, Finite 1, Finite 2],
                       [Finite 50, Finite 3, Finite 1, Finite 2],
                       [Finite 50, Finite 3, Finite 1, Finite 2]]\<rparr>)] \<and>
   fst (check_quality exact_kernels duplicate_sample []) =
     Inl (KeyError [''area'', ''bedrooms'', ''bathrooms'', ''stories''])"
  using text_price_summary
  by (simp add: check_quality_log check_quality_outcome text_price_sample_layout
      duplicate_sample_missing)

lemma housing_sample_layout:
  "missing_numeric housing_sample = []"
  "numeric_dtype_positions housing_sample = [0, 1, 2, 3, 4]"
  by (simp_all add: missing_numeric_def numeric_dtype_positions_def numeric_positions_def
      housing_sample_def NUMERIC_COLS_def)

lemma housing_sample_counts:
  "sort_values_desc (argsort_ties exact_kernels)
     (zip (map fst (columns housing_sample))
        (map (missing_in housing_sample) [0..<length (columns housing_sample)])) =
     [(''area'', 1), (''mainroad'', 1), (''price'', 0), (''bedrooms'', 0), (''bathrooms'', 0),
      (''stories'', 0), (''furnishingstatus'', 0)]"
  by (simp add: sort_values_desc_def Let_def exact_kernels_def missing_in_def housing_sample_def)

lemma housing_sample_price:
  "summary_of exact_kernels (cells_at housing_sample 0) =
     [Finite 3, Finite 200, Finite 100, Finite 100, Finite 150, Finite 200, Finite 250,
      Finite 300]"
proof -
  have "sqrt 10000 = 100"
    by (rule real_sqrt_unique) simp_all
  then show ?thesis
    by (simp add: summary_of_def cells_at_def housing_sample_def present_def least64_def
        greatest64_def values_of_def exact_kernels_def numbers_def mean_def std_def quantile_def
        Let_def)
qed

text \<open>
  C7, amended: the second record \<^verbatim>\<open>check_quality\<close> logs carries the per-column counts of
  missing cells (every column once, with its count) sorted by count in descending order,
  for every frame. If one of the five numeric labels is no column, \<^verbatim>\<open>check_quality\<close>
  raises \<^verbatim>\<open>KeyError\<close> with the absent labels, after four records. Otherwise it returns no
  value (\<^verbatim>\<open>None\<close>), and its fifth record carries the summary of the columns under the five
  labels that have a numeric dtype, in the order of the labels: all five for a frame in
  the layout of the housing data, fewer when one of them holds text, and the summary for
  text columns when none is numeric. A numeric summary has the rows count, mean, std,
  min, the 25, 50 and 75 percent quantiles and max; the entries of a column are the number
  of its non-missing cells, its least and its greatest number, and pandas' mean, standard
  deviation and quantiles of its cells.
\<close>

theorem check_quality_summary:
  "(\<exists>counts. drop (length lg) (snd (check_quality K df lg)) ! 1
                = Log DEBUG nl_fmt [ArgCounts counts] \<and>
      mset counts =
        mset (zip (map fst (columns df)) (map (missing_in df) [0..<length (columns df)])) \<and>
      sorted (rev (map snd counts))) \<and>
   (missing_numeric df \<noteq> [] \<longrightarrow>
      fst (check_quality K df lg) = Inl (KeyError (missing_numeric df)) \<and>
      length (snd (check_quality K df lg)) = length lg + 4) \<and>
   (missing_numeric df = [] \<longrightarrow>
      fst (check_quality K df lg) = Inr () \<and>
      length (snd (check_quality K df lg)) = length lg + 5 \<and>
      (numeric_dtype_positions df = [] \<longrightarrow>
         (\<exists>t. drop (length lg) (snd (check_quality K df lg)) ! 4
                 = Log DEBUG nl_fmt [ArgSummary (Categorical_summary t)] \<and>
              columns t = map (\<lambda>i. columns df ! i) (numeric_positions df))) \<and>
      (numeric_dtype_positions df \<noteq> [] \<longrightarrow>
         (\<exists>f. drop (length lg) (snd (check_quality K df lg)) ! 4
                 = Log DEBUG nl_fmt [ArgSummary (Numeric_summary f)] \<and>
              f_index f =
                [''count'', ''mean'', ''std'', ''min'', ''25%'', ''50%'', ''75%'', ''max''] \<and>
              f_columns f = map (\<lambda>i. fst (columns df ! i)) (numeric_dtype_positions df) \<and>
              length (f_values f) = 8 \<and>
              (\<forall>m<length (numeric_dtype_positions df).
                 map (\<lambda>row. row ! m) (f_values f)
                   = summary_of K (cells_at df (numeric_dtype_positions df ! m))))))"
proof (intro conjI impI)
  show "\<exists>counts. drop (length lg) (snd (check_quality K df lg)) ! 1
                = Log DEBUG nl_fmt [ArgCounts counts] \<and>
      mset counts =
        mset (zip (map fst (columns df)) (map (missing_in df) [0..<length (columns df)])) \<and>
      sorted (rev (map snd counts))"
    by (simp add: check_quality_logged sort_values_desc_sorted sort_values_desc_mset)
next
  assume "missing_numeric df \<noteq> []"
  then show "fst (check_quality K df lg) = Inl (KeyError (missing_numeric df))"
    and "length (snd (check_quality K df lg)) = length lg + 4"
    by (simp_all add: check_quality_log check_quality_outcome check_quality_appended
        getitem_numeric)
next
  assume present: "missing_numeric df = []"
  then show "fst (check_quality K df lg) = Inr ()"
    and "length (snd (check_quality K df lg)) = length lg + 5"
    by (simp_all add: check_quality_log check_quality_outcome check_quality_appended
        getitem_numeric)
  {
    assume "numeric_dtype_positions df = []"
    with present have "drop (length lg) (snd (check_quality K df lg)) ! 4
        = Log DEBUG nl_fmt
            [ArgSummary (Categorical_summary (take_columns (numeric_positions df) df))]"
      by (simp add: check_quality_logged describe_selection numeric_dtype_positions_filter
          Let_def)
    moreover have "columns (take_columns (numeric_positions df) df)
        = map (\<lambda>i. columns df ! i) (numeric_positions df)"
      by (simp add: take_columns_def)
    ultimately show "\<exists>t. drop (length lg) (snd (check_quality K df lg)) ! 4
                 = Log DEBUG nl_fmt [ArgSummary (Categorical_summary t)] \<and>
              columns t = map (\<lambda>i. columns df ! i) (numeric_positions df)"
      by blast
  }
  {
    assume numeric: "numeric_dtype_positions df \<noteq> []"
    let ?num = "numeric_dtype_positions df"
    define f :: "(string, string) frame" where
      "f = \<lparr>f_index = stat_names, f_columns = map (\<lambda>i. fst (columns df ! i)) ?num,
            f_values = map (\<lambda>k. map (\<lambda>i. summary_of K (cells_at df i) ! k) ?num)
                         [0..<length stat_names]\<rparr>"
    from present numeric have logged: "drop (length lg) (snd (check_quality K df lg)) ! 4
        = Log DEBUG nl_fmt [ArgSummary (Numeric_summary f)]"
      by (simp add: check_quality_logged describe_selection numeric_dtype_positions_filter f_def
          Let_def)
    have idx: "f_index f =
        [''count'', ''mean'', ''std'', ''min'', ''25%'', ''50%'', ''75%'', ''max'']"
      by (simp add: f_def stat_names_def)
    have cols: "f_columns f = map (\<lambda>i. fst (columns df ! i)) ?num"
      by (simp add: f_def)
    have len: "length (f_values f) = 8"
      by (simp add: f_def stat_names_def)
    have vals: "\<forall>m<length ?num.
        map (\<lambda>row. row ! m) (f_values f) = summary_of K (cells_at df (?num ! m))"
      using summary_column [of _ ?num K df] by (simp add: f_def)
    from logged idx cols len vals
    show "\<exists>f. drop (length lg) (snd (check_quality K df lg)) ! 4
                 = Log DEBUG nl_fmt [ArgSummary (Numeric_summary f)] \<and>
              f_index f =
                [''count'', ''mean'', ''std'', ''min'', ''25%'', ''50%'', ''75%'', ''max''] \<and>
              f_columns f = map (\<lambda>i. fst (columns df ! i)) (numeric_dtype_positions df) \<and>
              length (f_values f) = 8 \<and>
              (\<forall>m<length (numeric_dtype_positions df).
                 map (\<lambda>row. row ! m) (f_values f)
                   = summary_of K (cells_at df (numeric_dtype_positions df ! m)))"
      by blast
  }
qed


theorem check_quality_summary_witness:
  "missing_numeric housing_sample = [] \<and>
   fst (check_quality exact_kernels housing_sample []) = Inr () \<and>
   snd (check_quality exact_kernels housing_sample []) ! 1 =
     Log DEBUG nl_fmt
       [ArgCounts [(''area'', 1), (''mainroad'', 1), (''price'', 0), (''bedrooms'', 0),
                   (''bathrooms'', 0), (''stories'', 0), (''furnishingstatus'', 0)]] \<and>
   (\<exists>f. snd (check_quality exact_kernels housing_sample []) ! 4
           = Log DEBUG nl_fmt [ArgSummary (Numeric_summary f)] \<and>
        f_index f = [''count'', ''mean'', ''std'', ''min'', ''25%'', ''50%'', ''75%'', ''max''] \<and>
        f_columns f = [''price'', ''area'', ''bedrooms'', ''bathrooms'', ''stories''] \<and>
        map (\<lambda>row. row ! 0) (f_values f) =
          [Finite 3, Finite 200, Finite 100, Finite 100, Finite 150, Finite 200, Finite 250,
           Finite 300])"
proof -
  have counts: "snd (check_quality exact_kernels housing_sample []) ! 1 =
     Log DEBUG nl_fmt
       [ArgCounts [(''area'', 1), (''mainroad'', 1), (''price'', 0), (''bedrooms'', 0),
                   (''bathrooms'', 0), (''stories'', 0), (''furnishingstatus'', 0)]]"
    using check_quality_logged [of "[]" exact_kernels housing_sample]
    by (simp add: housing_sample_counts)
  have labels: "map (\<lambda>i. fst (columns housing_sample ! i)) [0, 1, 2, 3, 4] =
      [''price'', ''area'', ''bedrooms'', ''bathrooms'', ''stories'']"
    by (simp add: housing_sample_def)
  from check_quality_summary [of "[]" exact_kernels housing_sample]
  obtain f where "snd (check_quality exact_kernels housing_sample []) ! 4
      = Log DEBUG nl_fmt [ArgSummary (Numeric_summary f)]"
    and "f_index f = [''count'', ''mean'', ''std'', ''min'', ''25%'', ''50%'', ''75%'', ''max'']"
    and "f_columns f = [''price'', ''area'', ''bedrooms'', ''bathrooms'', ''stories'']"
    and "map (\<lambda>row. row ! 0) (f_values f) = summary_of exact_kernels (cells_at housing_sample 0)"
    and "fst (check_quality exact_kernels housing_sample []) = Inr ()"
    unfolding housing_sample_layout labels by auto
  with counts housing_sample_layout(1) housing_sample_price show ?thesis
    by auto
qed

section \<open>Grouped statistics\<close>

lemma clean_view_rows:
  "clean_view df \<Longrightarrow> missing_numeric df = [] \<and> (\<forall>r\<in>set (rows df). complete_row df r)"
  by (simp add: clean_view_def required_present_split list_all_iff)

lemma clean_view_group_column:
  assumes "clean_view df" and "group_positions df = [g]"
  shows "Null \<notin> set (cells_at df g)"
proof
  assume "Null \<in> set (cells_at df g)"
  then obtain r where r: "r \<in> set (rows df)" and null: "r ! g = Null"
    by (auto simp: cells_at_def)
  from r clean_view_rows [OF assms(1)] have "complete_row df r"
    by simp
  from complete_group [OF this, of g] assms(2) null show False
    by simp
qed

lemma grouped_sample_layout:
  "missing_numeric grouped_sample = []"
  "group_positions grouped_sample = [5]"
  "numeric_positions grouped_sample = [0, 1, 2, 3, 4]"
  "\<not> text_under_numeric grouped_sample"
  "clean_view grouped_sample"
  by (simp_all add: missing_numeric_def group_positions_def text_under_numeric_def
      numeric_positions_def clean_view_def required_present_def complete_row_def labels_def
      grouped_sample_def NUMERIC_COLS_def GROUP_COL_def)

lemma exact_groupby_mean: "groupby_mean exact_kernels cs = as_float64 (mean (numbers cs))"
  by (simp add: exact_kernels_def)

lemma grouped_sample_keys:
  "group_keys grouped_sample 5 = [Str ''furnished'', Str ''unfurnished'']"
  by (simp add: group_keys_def column_def grouped_sample_def sort_cells_def notna_def)

lemma grouped_sample_rows:
  "map (\<lambda>k. concat (map (\<lambda>i. aggregates_of exact_kernels (cells_of_group grouped_sample 5 k i))
                       [0, 1, 2, 3, 4]))
     [Str ''furnished'', Str ''unfurnished''] =
     [[Finite 2, Finite 300, groupby_std exact_kernels [Num 200, Num 400], Finite 200, Finite 400,
         Finite 2, Finite 70, groupby_std exact_kernels [Num 60, Num 80], Finite 60, Finite 80,
         Finite 2, Finite 3, groupby_std exact_kernels [Num 4, Num 2], Finite 2, Finite 4,
         Finite 2, Finite 2, groupby_std exact_kernels [Num 2, Num 2], Finite 2, Finite 2,
         Finite 2, Finite 2, groupby_std exact_kernels [Num 1, Num 3], Finite 1, Finite 3],
      [Finite 2, Finite 200, groupby_std exact_kernels [Num 100, Num 300], Finite 100, Finite 300,
         Finite 2, Finite 60, groupby_std exact_kernels [Num 50, Num 70], Finite 50, Finite 70,
         Finite 2, Finite 3, groupby_std exact_kernels [Num 3, Num 3], Finite 3, Finite 3,
         Finite 2, Finite 1, groupby_std exact_kernels [Num 1, Num 1], Finite 1, Finite 1,
         Finite 2, Finite 2, groupby_std exact_kernels [Num 2, Num 2], Finite 2, Finite 2]]"
  by (simp add: aggregates_of_def cells_of_group_def grouped_sample_def present_def least_def
      greatest_def values_of_def exact_groupby_mean numbers_def mean_def)

text \<open>
  C4: whenever \<^verbatim>\<open>descriptive_stats\<close> returns, the grouping label names one column, and the
  grouped table has one row per distinct non-null value of that column: its row labels
  do not repeat, every value that occurs is a label, and no other value is. Its columns
  are the pairs of a column under a numeric label and one of count, mean, std, min and
  max, and the row of a value holds, for each of these columns, the five aggregates of
  the cells of that column in the rows that carry the value: the number of non-missing
  cells, pandas' mean and standard deviation of the cells, and the least and the
  greatest number. For a cleaned view, where no value is missing, the labels are exactly
  the values that occur, and the function returns unless the grouping label names several
  columns (\<^verbatim>\<open>ValueError\<close>) or a column under a numeric label has the dtype \<^verbatim>\<open>str\<close> or holds
  a text (\<^verbatim>\<open>TypeError\<close>).
\<close>

theorem descriptive_stats_groups:
  "(\<forall>overall grouped. fst (descriptive_stats K df lg) = Inr (overall, grouped) \<longrightarrow>
      (\<exists>g. group_positions df = [g] \<and>
         distinct (f_index grouped) \<and>
         set (f_index grouped) = set (cells_at df g) - {Null} \<and>
         f_columns grouped =
           concat (map (\<lambda>i. map (\<lambda>s. (fst (columns df ! i), s))
                               [''count'', ''mean'', ''std'', ''min'', ''max''])
             (numeric_positions df)) \<and>
         length (f_values grouped) = length (f_index grouped) \<and>
         (\<forall>k<length (f_index grouped).
            f_values grouped ! k =
              concat (map (\<lambda>i. aggregates_of K (cells_of_group df g (f_index grouped ! k) i))
                (numeric_positions df))))) \<and>
   (clean_view df \<longrightarrow>
      (1 < length (group_positions df) \<longrightarrow> fst (descriptive_stats K df lg) = Inl ValueError) \<and>
      (length (group_positions df) = 1 \<and> text_under_numeric df \<longrightarrow>
         fst (descriptive_stats K df lg) = Inl TypeError) \<and>
      (length (group_positions df) = 1 \<and> \<not> text_under_numeric df \<longrightarrow>
         (\<exists>overall grouped. fst (descriptive_stats K df lg) = Inr (overall, grouped) \<and>
            set (f_index grouped) = set (cells_at df (hd (group_positions df))))))"
proof (intro conjI allI impI; (elim conjE)?)
  fix overall grouped
  assume "fst (descriptive_stats K df lg) = Inr (overall, grouped)"
  then have present: "missing_numeric df = []"
    and agg: "groupby_agg K GROUP_COL NUMERIC_COLS df = Inr grouped"
    by (auto simp: descriptive_stats_log descriptive_stats_result getitem_numeric
        split: sum.splits if_splits)
  from agg obtain g where g: "group_positions df = [g]"
    and grouped: "grouped =
      \<lparr>f_index = group_keys df g,
       f_columns =
         concat (map (\<lambda>i. map (\<lambda>s. (fst (columns df ! i), s)) agg_names) (numeric_positions df)),
       f_values =
         map (\<lambda>k. concat (map (\<lambda>i. aggregates_of K (cells_of_group df g k i))
                             (numeric_positions df)))
           (group_keys df g)\<rparr>"
    unfolding groupby_agg_numeric by (auto split: list.splits if_splits)
  show "\<exists>g. group_positions df = [g] \<and>
         distinct (f_index grouped) \<and>
         set (f_index grouped) = set (cells_at df g) - {Null} \<and>
         f_columns grouped =
           concat (map (\<lambda>i. map (\<lambda>s. (fst (columns df ! i), s))
                               [''count'', ''mean'', ''std'', ''min'', ''max''])
             (numeric_positions df)) \<and>
         length (f_values grouped) = length (f_index grouped) \<and>
         (\<forall>k<length (f_index grouped).
            f_values grouped ! k =
              concat (map (\<lambda>i. aggregates_of K (cells_of_group df g (f_index grouped ! k) i))
                (numeric_positions df)))"
    using g by (simp add: grouped group_keys_distinct group_keys_set agg_names_def)
next
  assume clean: "clean_view df" and "1 < length (group_positions df)"
  then obtain g g' gs where "group_positions df = g # g' # gs"
    by (cases "group_positions df"; cases "tl (group_positions df)") auto
  with descriptive_stats_outcome [of df K] clean_view_rows [OF clean]
  show "fst (descriptive_stats K df lg) = Inl ValueError"
    by (simp add: descriptive_stats_log)
next
  assume clean: "clean_view df" and "length (group_positions df) = 1"
    and "text_under_numeric df"
  moreover then obtain g where "group_positions df = [g]"
    by (cases "group_positions df") auto
  ultimately show "fst (descriptive_stats K df lg) = Inl TypeError"
    using descriptive_stats_outcome [of df K] clean_view_rows [OF clean]
    by (simp add: descriptive_stats_log)
next
  assume clean: "clean_view df" and "length (group_positions df) = 1"
    and cells: "\<not> text_under_numeric df"
  then obtain g where g: "group_positions df = [g]"
    by (cases "group_positions df") auto
  from clean_view_group_column [OF clean g]
  have "set (group_keys df g) = set (cells_at df g)"
    by (simp add: group_keys_set)
  with g cells descriptive_stats_outcome [of df K] clean_view_rows [OF clean]
  show "\<exists>overall grouped. fst (descriptive_stats K df lg) = Inr (overall, grouped) \<and>
            set (f_index grouped) = set (cells_at df (hd (group_positions df)))"
    by (simp add: descriptive_stats_log)
qed


theorem descriptive_stats_groups_witness:
  "clean_view grouped_sample \<and>
   (\<exists>overall grouped.
      fst (descriptive_stats exact_kernels grouped_sample []) = Inr (overall, grouped) \<and>
      f_index grouped = [Str ''furnished'', Str ''unfurnished''] \<and>
      distinct (f_index grouped) \<and>
      set (f_index grouped) = set (cells_at grouped_sample 5) \<and>
      f_values grouped =
        [[Finite 2, Finite 300, groupby_std exact_kernels [Num 200, Num 400], Finite 200, Finite 400,
         Finite 2, Finite 70, groupby_std exact_kernels [Num 60, Num 80], Finite 60, Finite 80,
         Finite 2, Finite 3, groupby_std exact_kernels [Num 4, Num 2], Finite 2, Finite 4,
         Finite 2, Finite 2, groupby_std exact_kernels [Num 2, Num 2], Finite 2, Finite 2,
         Finite 2, Finite 2, groupby_std exact_kernels [Num 1, Num 3], Finite 1, Finite 3],
         [Finite 2, Finite 200, groupby_std exact_kernels [Num 100, Num 300], Finite 100, Finite 300,
         Finite 2, Finite 60, groupby_std exact_kernels [Num 50, Num 70], Finite 50, Finite 70,
         Finite 2, Finite 3, groupby_std exact_kernels [Num 3, Num 3], Finite 3, Finite 3,
         Finite 2, Finite 1, groupby_std exact_kernels [Num 1, Num 1], Finite 1, Finite 1,
         Finite 2, Finite 2, groupby_std exact_kernels [Num 2, Num 2], Finite 2, Finite 2]])"
proof -
  note run = descriptive_stats_groups [of exact_kernels grouped_sample "[]"]
  from run grouped_sample_layout obtain overall grouped where
    res: "fst (descriptive_stats exact_kernels grouped_sample []) = Inr (overall, grouped)"
    and all: "set (f_index grouped) = set (cells_at grouped_sample 5)"
    by auto
  with run grouped_sample_layout have dist: "distinct (f_index grouped)"
    and len: "length (f_values grouped) = length (f_index grouped)"
    and row: "\<forall>k<length (f_index grouped).
        f_values grouped ! k =
          concat (map (\<lambda>i. aggregates_of exact_kernels
                     (cells_of_group grouped_sample 5 (f_index grouped ! k) i)) [0, 1, 2, 3, 4])"
    by auto
  from res descriptive_stats_outcome [of grouped_sample exact_kernels]
    clean_view_rows [OF grouped_sample_layout(5)]
  have idx: "f_index grouped = [Str ''furnished'', Str ''unfurnished'']"
    by (auto simp: descriptive_stats_log grouped_sample_layout grouped_sample_keys)
  have "f_values grouped = map (\<lambda>k. f_values grouped ! k) [0..<length (f_values grouped)]"
    by (simp only: map_nth)
  also have "\<dots> = map (\<lambda>k. concat (map (\<lambda>i. aggregates_of exact_kernels
                     (cells_of_group grouped_sample 5 (f_index grouped ! k) i)) [0, 1, 2, 3, 4]))
        [0..<length (f_index grouped)]"
    unfolding len by (rule map_cong) (simp_all add: row)
  also have "\<dots> = map (\<lambda>k. concat (map (\<lambda>i. aggregates_of exact_kernels
                     (cells_of_group grouped_sample 5 k i)) [0, 1, 2, 3, 4])) (f_index grouped)"
    using map_nth_fun [of "\<lambda>k. concat (map (\<lambda>i. aggregates_of exact_kernels
                     (cells_of_group grouped_sample 5 k i)) [0, 1, 2, 3, 4])" "f_index grouped"] .
  finally have "f_values grouped =
        [[Finite 2, Finite 300, groupby_std exact_kernels [Num 200, Num 400], Finite 200, Finite 400,
         Finite 2, Finite 70, groupby_std exact_kernels [Num 60, Num 80], Finite 60, Finite 80,
         Finite 2, Finite 3, groupby_std exact_kernels [Num 4, Num 2], Finite 2, Finite 4,
         Finite 2, Finite 2, groupby_std exact_kernels [Num 2, Num 2], Finite 2, Finite 2,
         Finite 2, Finite 2, groupby_std exact_kernels [Num 1, Num 3], Finite 1, Finite 3],
         [Finite 2, Finite 200, groupby_std exact_kernels [Num 100, Num 300], Finite 100, Finite 300,
         Finite 2, Finite 60, groupby_std exact_kernels [Num 50, Num 70], Finite 50, Finite 70,
         Finite 2, Finite 3, groupby_std exact_kernels [Num 3, Num 3], Finite 3, Finite 3,
         Finite 2, Finite 1, groupby_std exact_kernels [Num 1, Num 1], Finite 1, Finite 1,
         Finite 2, Finite 2, groupby_std exact_kernels [Num 2, Num 2], Finite 2, Finite 2]]"
    unfolding idx grouped_sample_rows .
  with res idx dist all grouped_sample_layout(5) show ?thesis
    by blast
qed

section \<open>The correlation matrix\<close>

lemma clean_sample_selection:
  "getitem NUMERIC_COLS clean_sample =
     Inr \<lparr>columns = [(''price'', Int64), (''area'', Int64), (''bedrooms'', Int64),
                     (''bathrooms'', Int64), (''stories'', Int64)],
          rows = [[Num 100, Num 50, Num 3, Num 1, Num 2],
                  [Num 102, Num 52, Num 3, Num 1, Num 2]]\<rparr>"
  by (simp add: getitem_numeric clean_sample_layout)
    (simp add: numeric_positions_def take_columns_def clean_sample_def NUMERIC_COLS_def)

lemma clean_sample_corr:
  "fst (correlation_matrix clean_sample []) =
     Inr \<lparr>f_index = [''price'', ''area'', ''bedrooms'', ''bathrooms'', ''stories''],
          f_columns = [''price'', ''area'', ''bedrooms'', ''bathrooms'', ''stories''],
          f_values = [[Finite 1, Finite 1, NaN, NaN, NaN],
                      [Finite 1, Finite 1, NaN, NaN, NaN],
                      [NaN, NaN, NaN, NaN, NaN],
                      [NaN, NaN, NaN, NaN, NaN],
                      [NaN, NaN, NaN, NaN, NaN]]\<rparr>"
proof -
  have "corr \<lparr>columns = [(''price'', Int64), (''area'', Int64), (''bedrooms'', Int64),
                      (''bathrooms'', Int64), (''stories'', Int64)],
           rows = [[Num 100, Num 50, Num 3, Num 1, Num 2],
                   [Num 102, Num 52, Num 3, Num 1, Num 2]]\<rparr>
      = Inr \<lparr>f_index = [''price'', ''area'', ''bedrooms'', ''bathrooms'', ''stories''],
          f_columns = [''price'', ''area'', ''bedrooms'', ''bathrooms'', ''stories''],
          f_values = [[Finite 1, Finite 1, NaN, NaN, NaN],
                      [Finite 1, Finite 1, NaN, NaN, NaN],
                      [NaN, NaN, NaN, NaN, NaN],
                      [NaN, NaN, NaN, NaN, NaN],
                      [NaN, NaN, NaN, NaN, NaN]]\<rparr>"
    by (simp add: corr_def Let_def labels_def column_def nancorr_def welford_step_def
        welford_start_def sub64_def)
  then show ?thesis
    by (simp add: correlation_matrix_def Let_def clean_sample_selection)
qed

lemma clean_sample_clean: "fst (make_clean_view clean_sample []) = Inr clean_sample"
  using make_clean_view_clean_of [of clean_sample]
  by (simp add: result_def required_present_split clean_sample_layout)

text \<open>
  C3: \<open>clean_sample\<close> is a cleaned view (\<^verbatim>\<open>make_clean_view\<close> returns it unchanged), and
  \<^verbatim>\<open>correlation_matrix\<close> returns for it a matrix labelled by the five numeric columns in
  which only the four entries of price and area are 1: every entry in the rows and the
  columns of bedrooms, bathrooms and stories is \<^verbatim>\<open>NaN\<close>, their diagonal entries included,
  because the root of the product of the sums of squared deviations is zero for a column
  that does not vary. The diagonal is not 1, and 21 of the 25 entries lie in no interval.
\<close>

theorem correlation_matrix_constant_columns:
  "fst (make_clean_view clean_sample []) = Inr clean_sample \<and>
   fst (correlation_matrix clean_sample []) =
     Inr \<lparr>f_index = [''price'', ''area'', ''bedrooms'', ''bathrooms'', ''stories''],
          f_columns = [''price'', ''area'', ''bedrooms'', ''bathrooms'', ''stories''],
          f_values = [[Finite 1, Finite 1, NaN, NaN, NaN],
                      [Finite 1, Finite 1, NaN, NaN, NaN],
                      [NaN, NaN, NaN, NaN, NaN],
                      [NaN, NaN, NaN, NaN, NaN],
                      [NaN, NaN, NaN, NaN, NaN]]\<rparr> \<and>
   f_values (projr (fst (correlation_matrix clean_sample []))) ! 2 ! 2 \<noteq> Finite 1"
  using clean_sample_clean clean_sample_corr by simp

end
